theory Spec2Isabelle
  imports Complex_Main
begin

section \<open>Shapes, layers and symbolic tensors\<close>

text \<open>
  The file \<open>model/gen_disc.py\<close> wires Keras layers into three model graphs. The model
  below follows the graph construction: a symbolic tensor carries its static shape and
  the expression that produced it, a layer call computes the shape of its result or
  fails, and a builder threads the tensor \<open>x\<close> through its layer calls.

  A shape is (height, width, channels); the batch axis is \<open>None\<close> throughout and is
  left out. A layer call on a symbolic tensor fails exactly where the framework raises
  while the graph is constructed; what a layer does on data is modelled separately,
  further down.
\<close>

type_synonym shape = "nat \<times> nat \<times> nat"

datatype error = TypeError | ValueError | IndexError | InvalidArgumentError | ImportError

datatype padding = Valid | Same

datatype act_name = Relu | Tanh

text \<open>
  The layers the file instantiates, with the constructor arguments it passes:
  \<open>ReflectionPadding2D (padding_width, padding_height)\<close>;
  \<open>Conv2D filters kernel_size strides padding use_bias\<close> and the same for
  \<open>Conv2DTranspose\<close>; \<open>MaxPooling2D pool_size strides padding\<close>. No convolution of the
  file passes \<open>activation\<close>, so every convolution is linear.
\<close>

datatype layer =
    ReflectionPadding2D "nat \<times> nat"
  | Conv2D int "nat \<times> nat" "nat \<times> nat" padding bool
  | Conv2DTranspose int "nat \<times> nat" "nat \<times> nat" padding bool
  | MaxPooling2D "nat \<times> nat" "nat \<times> nat" padding
  | InstanceNormalization
  | Activation act_name
  | LeakyReLU real

datatype node =
    InputLayer shape "string option"
  | Pretrained string
  | Apply layer node
  | Add node node

record ktensor =
  kshape :: shape
  knode :: node

record model =
  model_inputs :: ktensor
  model_outputs :: ktensor
  model_name :: "string option"

definition bindE :: "error + 'a \<Rightarrow> ('a \<Rightarrow> error + 'b) \<Rightarrow> error + 'b" where
  "bindE m f = (case m of Inl e \<Rightarrow> Inl e | Inr v \<Rightarrow> f v)"

subsection \<open>Shape rules of the framework layers\<close>

text \<open>
  Keras \<open>conv_utils.conv_output_length\<close>: with padding "same" the length is
  \<open>ceil(n / stride)\<close>; with "valid" it is \<open>(n - k + 1 + stride - 1) // stride\<close>, and a
  window larger than the input leaves no output position, which the framework rejects.
\<close>

definition conv_output_length :: "nat \<Rightarrow> nat \<Rightarrow> padding \<Rightarrow> nat \<Rightarrow> error + nat" where
  "conv_output_length input_length filter_size pad stride =
     (case pad of
        Same \<Rightarrow> Inr ((input_length + stride - 1) div stride)
      | Valid \<Rightarrow> if input_length < filter_size then Inl ValueError
                 else Inr ((input_length - filter_size + 1 + stride - 1) div stride))"

text \<open>
  Keras \<open>conv_utils.deconv_output_length\<close> with \<open>output_padding=None\<close>:
  "valid" gives \<open>n * stride + max(k - stride, 0)\<close>, "same" gives \<open>n * stride\<close>.
\<close>

definition deconv_output_length :: "nat \<Rightarrow> nat \<Rightarrow> padding \<Rightarrow> nat \<Rightarrow> nat" where
  "deconv_output_length input_length filter_size pad stride =
     (case pad of
        Valid \<Rightarrow> input_length * stride + max (filter_size - stride) 0
      | Same \<Rightarrow> input_length * stride)"

text \<open>
  The constructors of the convolution layers reject a filter count, a kernel size or a
  stride that is not strictly positive.
\<close>

definition conv_args_ok :: "int \<Rightarrow> nat \<times> nat \<Rightarrow> nat \<times> nat \<Rightarrow> bool" where
  "conv_args_ok filters kernel_size strides =
     (0 < filters \<and> 0 < fst kernel_size \<and> 0 < snd kernel_size
        \<and> 0 < fst strides \<and> 0 < snd strides)"

text \<open>
  \<open>ReflectionPadding2D.call\<close> unpacks \<open>padding_width, padding_height = self.padding\<close>
  and pads axis 1 (height) by \<open>padding_height\<close> and axis 2 (width) by \<open>padding_width\<close>
  with \<open>tf.pad(..., mode="REFLECT")\<close>. On a symbolic tensor \<open>tf.pad\<close> only adds the
  amounts to the static shape: the bound of the REFLECT mode (an amount must be less
  than the size of its axis) is checked when the operation runs on data, see
  \<open>ReflectionPadding2D_call\<close> below.
\<close>

fun compute_output_shape :: "layer \<Rightarrow> shape \<Rightarrow> error + shape" where
  "compute_output_shape (ReflectionPadding2D (padding_width, padding_height)) (h, w, c) =
     Inr (h + 2 * padding_height, w + 2 * padding_width, c)"
| "compute_output_shape (Conv2D filters (kh, kw) (sh, sw) pad use_bias) (h, w, c) =
     (if \<not> conv_args_ok filters (kh, kw) (sh, sw) then Inl ValueError
      else bindE (conv_output_length h kh pad sh) (\<lambda>h'.
           bindE (conv_output_length w kw pad sw) (\<lambda>w'.
           Inr (h', w', nat filters))))"
| "compute_output_shape (Conv2DTranspose filters (kh, kw) (sh, sw) pad use_bias) (h, w, c) =
     (if \<not> conv_args_ok filters (kh, kw) (sh, sw) then Inl ValueError
      else Inr (deconv_output_length h kh pad sh, deconv_output_length w kw pad sw,
                nat filters))"
| "compute_output_shape (MaxPooling2D (ph, pw) (sh, sw) pad) (h, w, c) =
     (if ph = 0 \<or> pw = 0 \<or> sh = 0 \<or> sw = 0 then Inl ValueError
      else bindE (conv_output_length h ph pad sh) (\<lambda>h'.
           bindE (conv_output_length w pw pad sw) (\<lambda>w'.
           Inr (h', w', c))))"
| "compute_output_shape InstanceNormalization s = Inr s"
| "compute_output_shape (Activation a) s = Inr s"
| "compute_output_shape (LeakyReLU alpha) s = Inr s"

text \<open>Calling a layer on a symbolic tensor: \<open>layer(x)\<close>.\<close>

definition call :: "layer \<Rightarrow> ktensor \<Rightarrow> error + ktensor" where
  "call l x =
     bindE (compute_output_shape l (kshape x)) (\<lambda>s.
     Inr \<lparr>kshape = s, knode = Apply l (knode x)\<rparr>)"

text \<open>
  \<open>layers.add([a, b])\<close>: the merge layer broadcasts an axis of size 1 and rejects two
  axes that differ otherwise.
\<close>

definition broadcast_dim :: "nat \<Rightarrow> nat \<Rightarrow> error + nat" where
  "broadcast_dim i j =
     (if i = 1 then Inr j else if j = 1 then Inr i
      else if i \<noteq> j then Inl ValueError else Inr i)"

definition layers_add :: "ktensor \<Rightarrow> ktensor \<Rightarrow> error + ktensor" where
  "layers_add a b =
     (case (kshape a, kshape b) of ((h1, w1, c1), (h2, w2, c2)) \<Rightarrow>
        bindE (broadcast_dim h1 h2) (\<lambda>h.
        bindE (broadcast_dim w1 w2) (\<lambda>w.
        bindE (broadcast_dim c1 c2) (\<lambda>c.
        Inr \<lparr>kshape = (h, w, c), knode = Add (knode a) (knode b)\<rparr>))))"

text \<open>\<open>tf.keras.layers.Input(shape=[h, w, c], name=...)\<close>.\<close>

definition Input :: "shape \<Rightarrow> string option \<Rightarrow> ktensor" where
  "Input s nm = \<lparr>kshape = s, knode = InputLayer s nm\<rparr>"

text \<open>
  Trainable parameters a layer creates when built on an input of the given shape:
  kernel and optional bias of a convolution, \<open>gamma\<close> and \<open>beta\<close> of an instance
  normalisation. \<open>ReflectionPadding2D\<close> defines neither \<open>build\<close> nor a weight; its only
  attribute is the padding tuple.
\<close>

fun count_params :: "layer \<Rightarrow> shape \<Rightarrow> nat" where
  "count_params (ReflectionPadding2D p) s = 0"
| "count_params (Conv2D filters (kh, kw) st pad use_bias) (h, w, c) =
     kh * kw * c * nat filters + (if use_bias then nat filters else 0)"
| "count_params (Conv2DTranspose filters (kh, kw) st pad use_bias) (h, w, c) =
     kh * kw * nat filters * c + (if use_bias then nat filters else 0)"
| "count_params (MaxPooling2D p st pad) s = 0"
| "count_params InstanceNormalization (h, w, c) = 2 * c"
| "count_params (Activation a) s = 0"
| "count_params (LeakyReLU alpha) s = 0"

fun is_activation_layer :: "layer \<Rightarrow> bool" where
  "is_activation_layer (Activation a) = True"
| "is_activation_layer (LeakyReLU alpha) = True"
| "is_activation_layer l = False"

section \<open>Block builders\<close>

text \<open>
  \<open>residual_block(x, activation, kernel_size=(3, 3), strides=(1, 1), padding="valid",
  use_bias=False)\<close>. \<open>dim = x.shape[-1]\<close> is the channel count of the input, and
  \<open>ReflectionPadding2D()\<close> pads by the default \<open>(1, 1)\<close>.
\<close>

definition residual_block ::
  "ktensor \<Rightarrow> layer \<Rightarrow> nat \<times> nat \<Rightarrow> nat \<times> nat \<Rightarrow> padding \<Rightarrow> bool \<Rightarrow> error + ktensor" where
  "residual_block x activation kernel_size strides pad use_bias =
     (case kshape x of (h, w, c) \<Rightarrow>
        bindE (call (ReflectionPadding2D (1, 1)) x) (\<lambda>x1.
        bindE (call (Conv2D (int c) kernel_size strides pad use_bias) x1) (\<lambda>x2.
        bindE (call InstanceNormalization x2) (\<lambda>x3.
        bindE (call activation x3) (\<lambda>x4.
        bindE (call (ReflectionPadding2D (1, 1)) x4) (\<lambda>x5.
        bindE (call (Conv2D (int c) kernel_size strides pad use_bias) x5) (\<lambda>x6.
        bindE (call InstanceNormalization x6) (\<lambda>x7.
        layers_add x x7))))))))"

text \<open>
  \<open>downsample(x, filters, activation, kernel_size=(3, 3), strides=(2, 2),
  padding="same", use_bias=False)\<close>; \<open>if activation:\<close> skips a \<open>None\<close> activation.
\<close>

definition downsample ::
  "ktensor \<Rightarrow> int \<Rightarrow> layer option \<Rightarrow> nat \<times> nat \<Rightarrow> nat \<times> nat \<Rightarrow> padding \<Rightarrow> bool
     \<Rightarrow> error + ktensor" where
  "downsample x filters activation kernel_size strides pad use_bias =
     bindE (call (Conv2D filters kernel_size strides pad use_bias) x) (\<lambda>x1.
     bindE (call InstanceNormalization x1) (\<lambda>x2.
     (case activation of None \<Rightarrow> Inr x2 | Some a \<Rightarrow> call a x2)))"

definition upsample ::
  "ktensor \<Rightarrow> int \<Rightarrow> layer option \<Rightarrow> nat \<times> nat \<Rightarrow> nat \<times> nat \<Rightarrow> padding \<Rightarrow> bool
     \<Rightarrow> error + ktensor" where
  "upsample x filters activation kernel_size strides pad use_bias =
     bindE (call (Conv2DTranspose filters kernel_size strides pad use_bias) x) (\<lambda>x1.
     bindE (call InstanceNormalization x1) (\<lambda>x2.
     (case activation of None \<Rightarrow> Inr x2 | Some a \<Rightarrow> call a x2)))"

text \<open>
  An \<open>activation\<close> argument of \<open>downsample\<close> or \<open>upsample\<close> as the file passes it:
  \<open>None\<close> or an activation layer.
\<close>

definition activation_arg_ok :: "layer option \<Rightarrow> bool" where
  "activation_arg_ok a = (case a of None \<Rightarrow> True | Some l \<Rightarrow> is_activation_layer l)"

text \<open>
  \<open>upsample(downsample(x, filters, ...), filters, ...)\<close>, both with the default strides
  \<open>(2, 2)\<close> and padding "same"; each block has its own activation, kernel size and
  bias flag.
\<close>

definition downsample_upsample ::
  "ktensor \<Rightarrow> int \<Rightarrow> layer option \<Rightarrow> nat \<times> nat \<Rightarrow> bool
     \<Rightarrow> layer option \<Rightarrow> nat \<times> nat \<Rightarrow> bool \<Rightarrow> error + ktensor" where
  "downsample_upsample x filters a1 k1 b1 a2 k2 b2 =
     bindE (downsample x filters a1 k1 (2, 2) Same b1) (\<lambda>y.
       upsample y filters a2 k2 (2, 2) Same b2)"

definition result_shape :: "error + ktensor \<Rightarrow> shape option" where
  "result_shape r = (case r of Inl e \<Rightarrow> None | Inr y \<Rightarrow> Some (kshape y))"

section \<open>The ResNet generator\<close>

text \<open>
  The three \<open>for _ in range(n)\<close> loops of \<open>get_resnet_generator\<close>, each as a recursion
  on the number of iterations left. The first and the last also update \<open>filters\<close>
  (\<open>filters *= 2\<close>, \<open>filters //= 2\<close>) before the block is built.
\<close>

fun downsampling_blocks :: "nat \<Rightarrow> int \<Rightarrow> ktensor \<Rightarrow> error + (int \<times> ktensor)" where
  "downsampling_blocks 0 filters x = Inr (filters, x)"
| "downsampling_blocks (Suc n) filters x =
     bindE (downsample x (filters * 2) (Some (Activation Relu)) (3, 3) (2, 2) Same False)
       (\<lambda>x'. downsampling_blocks n (filters * 2) x')"

fun residual_blocks :: "nat \<Rightarrow> ktensor \<Rightarrow> error + ktensor" where
  "residual_blocks 0 x = Inr x"
| "residual_blocks (Suc n) x =
     bindE (residual_block x (Activation Relu) (3, 3) (1, 1) Valid False)
       (\<lambda>x'. residual_blocks n x')"

fun upsample_blocks :: "nat \<Rightarrow> int \<Rightarrow> ktensor \<Rightarrow> error + (int \<times> ktensor)" where
  "upsample_blocks 0 filters x = Inr (filters, x)"
| "upsample_blocks (Suc n) filters x =
     bindE (upsample x (filters div 2) (Some (Activation Relu)) (3, 3) (2, 2) Same False)
       (\<lambda>x'. upsample_blocks n (filters div 2) x')"

text \<open>
  \<open>get_resnet_generator(filters=64, num_downsampling_blocks=2, num_residual_blocks=5,
  num_upsample_blocks=2, name=None)\<close>. \<open>range(n)\<close> is empty for \<open>n \<le> 0\<close>, hence
  \<open>nat\<close>. The closing \<open>model.compile()\<close> and \<open>model.summary()\<close> do not change the graph.
\<close>

definition get_resnet_generator ::
  "int \<Rightarrow> int \<Rightarrow> int \<Rightarrow> int \<Rightarrow> string option \<Rightarrow> error + model" where
  "get_resnet_generator filters num_downsampling_blocks num_residual_blocks
       num_upsample_blocks name =
     (let inputs = Input (256, 256, 3) None in
      bindE (call (ReflectionPadding2D (3, 3)) inputs) (\<lambda>x1.
      bindE (call (Conv2D filters (7, 7) (1, 1) Valid False) x1) (\<lambda>x2.
      bindE (call InstanceNormalization x2) (\<lambda>x3.
      bindE (call (Activation Relu) x3) (\<lambda>x4.
      bindE (downsampling_blocks (nat num_downsampling_blocks) filters x4) (\<lambda>(filters1, x5).
      bindE (residual_blocks (nat num_residual_blocks) x5) (\<lambda>x6.
      bindE (upsample_blocks (nat num_upsample_blocks) filters1 x6) (\<lambda>(filters2, x7).
      bindE (call (ReflectionPadding2D (3, 3)) x7) (\<lambda>x8.
      bindE (call (Conv2D 3 (7, 7) (1, 1) Valid True) x8) (\<lambda>x9.
      bindE (call (Activation Tanh) x9) (\<lambda>x10.
      Inr \<lparr>model_inputs = inputs, model_outputs = x10, model_name = name\<rparr>)))))))))))"

section \<open>The discriminator\<close>

text \<open>
  \<open>name + "_img_input"\<close>: concatenating \<open>None\<close> with a string raises \<open>TypeError\<close>.
\<close>

definition str_concat :: "string option \<Rightarrow> string \<Rightarrow> error + string" where
  "str_concat a b = (case a of None \<Rightarrow> Inl TypeError | Some s \<Rightarrow> Inr (s @ b))"

text \<open>
  The loop \<open>for num_downsample_block in range(3)\<close>, as a recursion on the list of
  indices still to visit.
\<close>

fun discriminator_blocks :: "nat list \<Rightarrow> int \<Rightarrow> ktensor \<Rightarrow> error + (int \<times> ktensor)" where
  "discriminator_blocks [] num_filters x = Inr (num_filters, x)"
| "discriminator_blocks (num_downsample_block # rest) num_filters x =
     bindE (if num_downsample_block < 2
            then downsample x (num_filters * 2) (Some (LeakyReLU 0.2)) (4, 4) (2, 2) Same False
            else downsample x (num_filters * 2) (Some (LeakyReLU 0.2)) (4, 4) (1, 1) Same False)
       (\<lambda>x'. discriminator_blocks rest (num_filters * 2) x')"

text \<open>
  \<open>get_discriminator(filters=64, num_downsampling=3, name=None)\<close>. The body never reads
  \<open>num_downsampling\<close>.
\<close>

definition get_discriminator :: "int \<Rightarrow> int \<Rightarrow> string option \<Rightarrow> error + model" where
  "get_discriminator filters num_downsampling name =
     bindE (str_concat name ''_img_input'') (\<lambda>input_name.
     (let img_input = Input (256, 256, 3) (Some input_name) in
      bindE (call (Conv2D filters (4, 4) (2, 2) Same True) img_input) (\<lambda>x1.
      bindE (call (LeakyReLU 0.2) x1) (\<lambda>x2.
      bindE (discriminator_blocks [0, 1, 2] filters x2) (\<lambda>(num_filters, x3).
      bindE (call (Conv2D 1 (4, 4) (1, 1) Same True) x3) (\<lambda>x4.
      Inr \<lparr>model_inputs = img_input, model_outputs = x4, model_name = name\<rparr>))))))"

section \<open>The EfficientNet generator\<close>

text \<open>
  \<open>efn.EfficientNetB3(include_top=False, weights="imagenet", input_shape=(256, 256, 3))\<close>
  belongs to an external package; its result is a parameter here: either an error
  (the weights cannot be loaded) or a model with its input tensor and the output tensor
  of each of its layers, in the order of \<open>model.layers\<close>.
\<close>

record backbone =
  backbone_inputs :: ktensor
  layer_outputs :: "ktensor list"

text \<open>
  Subscripting a Python list: \<open>xs[i]\<close> reads position \<open>i\<close>, a negative \<open>i\<close> reads
  position \<open>len(xs) + i\<close>, and a position outside the list raises \<open>IndexError\<close>.
\<close>

definition py_index :: "'a list \<Rightarrow> int \<Rightarrow> error + 'a" where
  "py_index xs i =
     (if 0 \<le> i \<and> i < int (length xs) then Inr (xs ! nat i)
      else if i < 0 \<and> - i \<le> int (length xs) then Inr (xs ! nat (int (length xs) + i))
      else Inl IndexError)"

definition efficientnet_generator :: "error + backbone \<Rightarrow> error + model" where
  "efficientnet_generator EfficientNetB3 =
     bindE EfficientNetB3 (\<lambda>m.
     bindE (py_index (layer_outputs m) (- 36)) (\<lambda>x0.
     bindE (call (Conv2DTranspose 640 (2, 2) (2, 2) Valid False) x0) (\<lambda>x1.
     bindE (call (MaxPooling2D (2, 2) (1, 1) Valid) x1) (\<lambda>x2.
     bindE (call InstanceNormalization x2) (\<lambda>x3.
     bindE (call (Conv2DTranspose 160 (4, 4) (4, 4) Valid False) x3) (\<lambda>x4.
     bindE (call (MaxPooling2D (2, 2) (1, 1) Valid) x4) (\<lambda>x5.
     bindE (call InstanceNormalization x5) (\<lambda>x6.
     bindE (call (Conv2DTranspose 40 (2, 2) (2, 2) Valid False) x6) (\<lambda>x7.
     bindE (call (MaxPooling2D (2, 2) (1, 1) Valid) x7) (\<lambda>x8.
     bindE (call InstanceNormalization x8) (\<lambda>x9.
     bindE (call (Conv2DTranspose 3 (2, 2) (2, 2) Valid False) x9) (\<lambda>x10.
     bindE (call (MaxPooling2D (2, 2) (1, 1) Valid) x10) (\<lambda>x11.
     bindE (call InstanceNormalization x11) (\<lambda>x12.
     Inr \<lparr>model_inputs = backbone_inputs m, model_outputs = x12,
          model_name = None\<rparr>))))))))))))))"

text \<open>Shapes of a build result, when there is one.\<close>

definition built_output_shape :: "error + model \<Rightarrow> shape option" where
  "built_output_shape r = (case r of Inl e \<Rightarrow> None | Inr m \<Rightarrow> Some (kshape (model_outputs m)))"

definition built_input_shape :: "error + model \<Rightarrow> shape option" where
  "built_input_shape r = (case r of Inl e \<Rightarrow> None | Inr m \<Rightarrow> Some (kshape (model_inputs m)))"

text \<open>The builders called with no arguments, that is with the defaults of their signatures.\<close>

definition get_resnet_generator_default :: "error + model" where
  "get_resnet_generator_default = get_resnet_generator 64 2 5 2 None"

definition get_discriminator_default :: "error + model" where
  "get_discriminator_default = get_discriminator 64 3 None"

section \<open>Layers on data\<close>

text \<open>
  A 4D tensor value (batch, height, width, channels) is a nested list, rectangular and
  with no empty axis. \<open>tensor_dims\<close> reads its axis sizes, and is \<open>None\<close> on a nested
  list that is not such a tensor.
\<close>

type_synonym 'a tensor4 = "'a list list list list"

definition has_shape4 :: "'a tensor4 \<Rightarrow> nat \<Rightarrow> nat \<Rightarrow> nat \<Rightarrow> nat \<Rightarrow> bool" where
  "has_shape4 t b h w c =
     (length t = b \<and> (\<forall>img \<in> set t. length img = h \<and>
        (\<forall>row \<in> set img. length row = w \<and> (\<forall>px \<in> set row. length px = c))))"

definition tensor_dims :: "'a tensor4 \<Rightarrow> (nat \<times> nat \<times> nat \<times> nat) option" where
  "tensor_dims t =
     (case t of [] \<Rightarrow> None | img # _ \<Rightarrow>
      (case img of [] \<Rightarrow> None | row # _ \<Rightarrow>
       (case row of [] \<Rightarrow> None | px # _ \<Rightarrow>
          if px \<noteq> [] \<and> has_shape4 t (length t) (length img) (length row) (length px)
          then Some (length t, length img, length row, length px) else None)))"

text \<open>
  \<open>tf.pad\<close> in REFLECT mode along one axis, by \<open>p\<close> on both sides: the elements next
  to the border are repeated in reverse order, without the border element itself.
\<close>

definition mirror_pad :: "nat \<Rightarrow> 'a list \<Rightarrow> 'a list" where
  "mirror_pad p xs = rev (take p (tl xs)) @ xs @ take p (tl (rev xs))"

text \<open>
  \<open>ReflectionPadding2D(padding).call(input_tensor)\<close>: the padding tensor is
  \<open>[[0, 0], [padding_height, padding_height], [padding_width, padding_width], [0, 0]]\<close>,
  and the REFLECT mode rejects an amount that is not less than the size of its axis,
  on every axis: an empty axis is rejected even where the amount is 0.
\<close>

definition ReflectionPadding2D_call :: "nat \<times> nat \<Rightarrow> 'a tensor4 \<Rightarrow> error + 'a tensor4" where
  "ReflectionPadding2D_call padding input_tensor =
     (case padding of (padding_width, padding_height) \<Rightarrow>
      (case tensor_dims input_tensor of
         None \<Rightarrow> Inl InvalidArgumentError
       | Some (b, h, w, c) \<Rightarrow>
           if padding_height < h \<and> padding_width < w
           then Inr (map (\<lambda>img. mirror_pad padding_height (map (mirror_pad padding_width) img))
                       input_tensor)
           else Inl InvalidArgumentError))"

text \<open>An \<open>Activation\<close> layer applies its function to every component.\<close>

definition activation_fn :: "act_name \<Rightarrow> real \<Rightarrow> real" where
  "activation_fn a v = (case a of Relu \<Rightarrow> max 0 v | Tanh \<Rightarrow> tanh v)"

definition Activation_call :: "act_name \<Rightarrow> real tensor4 \<Rightarrow> real tensor4" where
  "Activation_call a t = map (map (map (map (activation_fn a)))) t"

definition components :: "'a tensor4 \<Rightarrow> 'a list" where
  "components t = concat (concat (concat t))"

section \<open>The architectures as the specification words them\<close>

text \<open>
  The definitions of this section follow the specification, not the code; the theorems
  compare the graphs the builders construct with them.
\<close>

fun apply_layers :: "layer list \<Rightarrow> node \<Rightarrow> node" where
  "apply_layers [] n = n"
| "apply_layers (l # ls) n = apply_layers ls (Apply l n)"

text \<open>Reflect padding: the source index an output index along a padded axis mirrors.\<close>

definition spec_reflect_index :: "nat \<Rightarrow> nat \<Rightarrow> nat \<Rightarrow> nat" where
  "spec_reflect_index p n i =
     (if i < p then p - i else if i < p + n then i - p else 2 * n - 2 - (i - p))"

text \<open>
  ResNet generator: reflect-pad(3,3), 7x7 convolution, norm, ReLU; N downsampling blocks,
  the channel count doubling at each; M residual blocks at a fixed channel count; K
  upsampling blocks, the channel count halving at each (integer halving); reflect-pad(3,3),
  7x7 convolution to 3 channels, tanh.
\<close>

definition spec_stem :: "int \<Rightarrow> layer list" where
  "spec_stem filters =
     [ReflectionPadding2D (3, 3), Conv2D filters (7, 7) (1, 1) Valid False,
      InstanceNormalization, Activation Relu]"

fun spec_downsampling :: "nat \<Rightarrow> int \<Rightarrow> layer list" where
  "spec_downsampling 0 channels = []"
| "spec_downsampling (Suc n) channels =
     [Conv2D (2 * channels) (3, 3) (2, 2) Same False, InstanceNormalization, Activation Relu]
       @ spec_downsampling n (2 * channels)"

definition spec_residual :: "int \<Rightarrow> node \<Rightarrow> node" where
  "spec_residual channels n =
     Add n (apply_layers
       [ReflectionPadding2D (1, 1), Conv2D channels (3, 3) (1, 1) Valid False,
        InstanceNormalization, Activation Relu,
        ReflectionPadding2D (1, 1), Conv2D channels (3, 3) (1, 1) Valid False,
        InstanceNormalization] n)"

fun spec_upsampling :: "nat \<Rightarrow> int \<Rightarrow> layer list" where
  "spec_upsampling 0 channels = []"
| "spec_upsampling (Suc n) channels =
     [Conv2DTranspose (channels div 2) (3, 3) (2, 2) Same False, InstanceNormalization,
      Activation Relu] @ spec_upsampling n (channels div 2)"

definition spec_final :: "layer list" where
  "spec_final =
     [ReflectionPadding2D (3, 3), Conv2D 3 (7, 7) (1, 1) Valid True, Activation Tanh]"

definition spec_resnet_graph :: "int \<Rightarrow> nat \<Rightarrow> nat \<Rightarrow> nat \<Rightarrow> node" where
  "spec_resnet_graph filters N M K =
     apply_layers spec_final
       (apply_layers (spec_upsampling K (filters * 2 ^ N))
          ((spec_residual (filters * 2 ^ N) ^^ M)
             (apply_layers (spec_downsampling N filters)
                (apply_layers (spec_stem filters) (InputLayer (256, 256, 3) None)))))"

text \<open>
  EfficientNet generator: four stages of transposed convolution, max-pool and instance
  norm on top of the truncated backbone.
\<close>

definition spec_decoder_stage :: "int \<Rightarrow> nat \<times> nat \<Rightarrow> layer list" where
  "spec_decoder_stage filters k =
     [Conv2DTranspose filters k k Valid False, MaxPooling2D (2, 2) (1, 1) Valid,
      InstanceNormalization]"

definition spec_decoder :: "layer list" where
  "spec_decoder =
     spec_decoder_stage 640 (2, 2) @ spec_decoder_stage 160 (4, 4)
       @ spec_decoder_stage 40 (2, 2) @ spec_decoder_stage 3 (2, 2)"

text \<open>
  Discriminator: 4x4 stride-2 convolution and LeakyReLU(0.2); three downsampling stages,
  the first two of stride 2 and the last of stride 1, the channels doubling at each; a
  final 4x4 stride-1 convolution to one channel.
\<close>

definition spec_disc_stage :: "int \<Rightarrow> nat \<times> nat \<Rightarrow> layer list" where
  "spec_disc_stage filters strides =
     [Conv2D filters (4, 4) strides Same False, InstanceNormalization, LeakyReLU 0.2]"

definition spec_discriminator :: "int \<Rightarrow> layer list" where
  "spec_discriminator filters =
     [Conv2D filters (4, 4) (2, 2) Same True, LeakyReLU 0.2]
       @ spec_disc_stage (2 * filters) (2, 2)
       @ spec_disc_stage (4 * filters) (2, 2)
       @ spec_disc_stage (8 * filters) (1, 1)
       @ [Conv2D 1 (4, 4) (1, 1) Same True]"

text \<open>The filter counts of the transposed convolutions of a layer sequence, in order.\<close>

fun transposed_conv_filters :: "layer list \<Rightarrow> int list" where
  "transposed_conv_filters [] = []"
| "transposed_conv_filters (Conv2DTranspose filters k s p b # ls) =
     filters # transposed_conv_filters ls"
| "transposed_conv_filters (l # ls) = transposed_conv_filters ls"

text \<open>
  The output length of a stride-2 convolution with padding "same": \<open>ceil(d / 2)\<close>.
\<close>

definition halve :: "nat \<Rightarrow> nat" where
  "halve d = (d + 1) div 2"

section \<open>Basic facts\<close>

lemma bindE_Inr [simp]: "bindE (Inr v) f = f v"
  by (simp add: bindE_def)

lemma bindE_Inl [simp]: "bindE (Inl e) f = Inl e"
  by (simp add: bindE_def)

lemma bindE_eq_Inr: "bindE m f = Inr y \<longleftrightarrow> (\<exists>v. m = Inr v \<and> f v = Inr y)"
  by (cases m) simp_all

lemma call_eq_Inr:
  "call l x = Inr y \<longleftrightarrow>
     (\<exists>s. compute_output_shape l (kshape x) = Inr s
          \<and> y = \<lparr>kshape = s, knode = Apply l (knode x)\<rparr>)"
  by (auto simp: call_def bindE_eq_Inr)

lemma conv_same_length [simp]: "conv_output_length n k Same s = Inr ((n + s - 1) div s)"
  by (simp add: conv_output_length_def)

lemma conv_valid_length [simp]:
  "conv_output_length n k Valid s =
     (if n < k then Inl ValueError else Inr ((n - k + 1 + s - 1) div s))"
  by (simp add: conv_output_length_def)

lemma deconv_length [simp]:
  "deconv_output_length n k Valid s = n * s + (k - s)"
  "deconv_output_length n k Same s = n * s"
  by (simp_all add: deconv_output_length_def)

lemma downsample_activation:
  "is_activation_layer a \<Longrightarrow>
   downsample x filters (Some a) k s p b =
     bindE (compute_output_shape (Conv2D filters k s p b) (kshape x)) (\<lambda>sh.
       Inr \<lparr>kshape = sh,
            knode = apply_layers [Conv2D filters k s p b, InstanceNormalization, a] (knode x)\<rparr>)"
  by (cases a; cases "compute_output_shape (Conv2D filters k s p b) (kshape x)")
     (simp_all add: downsample_def call_def)

section \<open>The block builders\<close>

lemma activation_shape [simp]:
  "is_activation_layer a \<Longrightarrow> compute_output_shape a s = Inr s"
  by (cases a) simp_all

lemma downsample_shape:
  assumes "activation_arg_ok a"
  shows "result_shape (downsample x filters a k s p b)
           = (case compute_output_shape (Conv2D filters k s p b) (kshape x) of
                Inl e \<Rightarrow> None | Inr sh \<Rightarrow> Some sh)"
  using assms
  by (cases a; cases "compute_output_shape (Conv2D filters k s p b) (kshape x)")
     (simp_all add: downsample_def call_def result_shape_def activation_arg_ok_def)

lemma upsample_shape:
  assumes "activation_arg_ok a"
  shows "result_shape (upsample x filters a k s p b)
           = (case compute_output_shape (Conv2DTranspose filters k s p b) (kshape x) of
                Inl e \<Rightarrow> None | Inr sh \<Rightarrow> Some sh)"
  using assms
  by (cases a; cases "compute_output_shape (Conv2DTranspose filters k s p b) (kshape x)")
     (simp_all add: upsample_def call_def result_shape_def activation_arg_ok_def)

lemma result_shape_Some: "result_shape r = Some s \<longleftrightarrow> (\<exists>y. r = Inr y \<and> kshape y = s)"
  by (cases r) (auto simp: result_shape_def)

lemma result_shape_bindE:
  "result_shape (bindE m f) = (case m of Inl e \<Rightarrow> None | Inr y \<Rightarrow> result_shape (f y))"
  by (cases m) (simp_all add: result_shape_def)

text \<open>
  C4 (as amended). For an input of even height and width, \<open>downsample\<close> followed by
  \<open>upsample\<close> with the same filter count, both at stride \<open>(2, 2)\<close> and padding "same",
  returns a tensor of the height and width of the input. In general the result has
  height \<open>h + h mod 2\<close> and width \<open>w + w mod 2\<close>.
\<close>

theorem downsample_upsample_resolution:
  assumes "kshape x = (h, w, c)" and "0 < filters"
    and "0 < fst k1 \<and> 0 < snd k1" and "0 < fst k2 \<and> 0 < snd k2"
    and "activation_arg_ok a1" and "activation_arg_ok a2"
  shows "result_shape (downsample_upsample x filters a1 k1 b1 a2 k2 b2)
           = Some (h + h mod 2, w + w mod 2, nat filters)
     \<and> (even h \<and> even w \<longrightarrow>
          (\<exists>z. downsample_upsample x filters a1 k1 b1 a2 k2 b2 = Inr z
             \<and> fst (kshape z) = h \<and> fst (snd (kshape z)) = w))"
proof -
  obtain kh1 kw1 kh2 kw2 where k: "k1 = (kh1, kw1)" "k2 = (kh2, kw2)"
    by (cases k1, cases k2) auto
  have d: "result_shape (downsample x filters a1 k1 (2, 2) Same b1)
      = Some ((h + 1) div 2, (w + 1) div 2, nat filters)"
    using assms k by (simp add: downsample_shape conv_args_ok_def conv_output_length_def)
  then obtain y where y: "downsample x filters a1 k1 (2, 2) Same b1 = Inr y"
    and ys: "kshape y = ((h + 1) div 2, (w + 1) div 2, nat filters)"
    by (auto simp: result_shape_Some)
  have "result_shape (upsample y filters a2 k2 (2, 2) Same b2)
      = Some ((h + 1) div 2 * 2, (w + 1) div 2 * 2, nat filters)"
    using assms k ys by (simp add: upsample_shape conv_args_ok_def deconv_output_length_def)
  moreover have "(h + 1) div 2 * 2 = h + h mod 2" "(w + 1) div 2 * 2 = w + w mod 2"
    by presburger+
  ultimately have r: "result_shape (downsample_upsample x filters a1 k1 b1 a2 k2 b2)
           = Some (h + h mod 2, w + w mod 2, nat filters)"
    using y by (simp add: downsample_upsample_def result_shape_bindE)
  then obtain z where "downsample_upsample x filters a1 k1 b1 a2 k2 b2 = Inr z"
    and "kshape z = (h + h mod 2, w + w mod 2, nat filters)"
    by (auto simp: result_shape_Some)
  then have "even h \<and> even w \<longrightarrow>
          (\<exists>z. downsample_upsample x filters a1 k1 b1 a2 k2 b2 = Inr z
             \<and> fst (kshape z) = h \<and> fst (snd (kshape z)) = w)"
    by auto
  with r show ?thesis by simp
qed

text \<open>
  The claim as stated, for every input tensor, fails on an odd size: a 5x5 input comes
  back as 6x6.
\<close>

theorem downsample_upsample_odd_counterexample:
  "result_shape (downsample_upsample (Input (5, 5, 3) None) 8
      (Some (Activation Relu)) (3, 3) False (Some (Activation Relu)) (3, 3) False)
     = Some (6, 6, 8)"
  by (simp add: downsample_upsample_def downsample_def upsample_def call_def Input_def
      result_shape_def conv_args_ok_def conv_output_length_def deconv_output_length_def)

theorem downsample_upsample_resolution_witness:
  "result_shape (downsample_upsample (Input (256, 256, 3) None) 128
      (Some (Activation Relu)) (3, 3) False (Some (Activation Relu)) (3, 3) False)
     = Some (256, 256, 128)
   \<and> (\<exists>z. downsample_upsample (Input (256, 256, 3) None) 128
      (Some (Activation Relu)) (3, 3) False (Some (Activation Relu)) (3, 3) False = Inr z
        \<and> fst (kshape z) = 256 \<and> fst (snd (kshape z)) = 256)"
  using downsample_upsample_resolution [of "Input (256, 256, 3) None" 256 256 3 128 "(3, 3)" "(3, 3)"
      "Some (Activation Relu)" "Some (Activation Relu)" False False]
  by (simp add: Input_def activation_arg_ok_def)

lemma broadcast_dim_keeps:
  "broadcast_dim i j = Inr k \<Longrightarrow> i \<noteq> 1 \<or> j = i \<Longrightarrow> k = i"
  by (auto simp: broadcast_dim_def split: if_splits)

lemma layers_add_shape:
  assumes "layers_add a b = Inr y" and "kshape a = (h, w, c)" and "h \<noteq> 1" and "w \<noteq> 1"
    and "snd (snd (kshape b)) = c"
  shows "kshape y = (h, w, c)"
proof -
  obtain h2 w2 where b: "kshape b = (h2, w2, c)"
    using assms(5) by (cases "kshape b") auto
  from assms(1,2) b obtain h' w' c' where "broadcast_dim h h2 = Inr h'"
    "broadcast_dim w w2 = Inr w'" "broadcast_dim c c = Inr c'" "kshape y = (h', w', c')"
    by (auto simp: layers_add_def bindE_eq_Inr)
  with assms(3,4) show ?thesis
    by (auto dest!: broadcast_dim_keeps)
qed

lemma conv_channels:
  "compute_output_shape (Conv2D filters k s p b) sh = Inr sh' \<Longrightarrow> snd (snd sh') = nat filters"
  by (cases k; cases s; cases sh) (auto simp: bindE_eq_Inr split: if_splits)

lemma residual_block_default_shape:
  assumes "is_activation_layer a" and "kshape x = (h, w, c)"
    and "0 < h" and "0 < w" and "0 < c"
  shows "result_shape (residual_block x a (3, 3) (1, 1) Valid b) = Some (h, w, c)"
  using assms
  by (simp add: residual_block_def call_def conv_args_ok_def layers_add_def broadcast_dim_def
      result_shape_def)

text \<open>
  C3 (as amended). Whenever \<open>residual_block\<close> builds its block on an input whose height
  and width are both different from 1, for any activation layer, kernel size, strides,
  padding and bias flag, the output has the shape of the input: the same height, width
  and channel count. With the default kernel size \<open>(3, 3)\<close>, strides \<open>(1, 1)\<close> and
  padding "valid" the block is built and keeps the shape on every input with no empty
  axis, a height or width of 1 included.
\<close>

theorem residual_block_preserves_shape:
  "(residual_block x activation kernel_size strides pad use_bias = Inr y
      \<and> fst (kshape x) \<noteq> 1 \<and> fst (snd (kshape x)) \<noteq> 1 \<longrightarrow> kshape y = kshape x)
   \<and> (is_activation_layer a \<and> kshape x = (h, w, c) \<and> 0 < h \<and> 0 < w \<and> 0 < c \<longrightarrow>
        result_shape (residual_block x a (3, 3) (1, 1) Valid b) = Some (h, w, c))"
proof (intro conjI impI)
  assume a: "residual_block x activation kernel_size strides pad use_bias = Inr y
      \<and> fst (kshape x) \<noteq> 1 \<and> fst (snd (kshape x)) \<noteq> 1"
  obtain h' w' c' where s: "kshape x = (h', w', c')" by (cases "kshape x") auto
  from a s have r: "residual_block x activation kernel_size strides pad use_bias = Inr y"
    and hw: "h' \<noteq> 1" "w' \<noteq> 1"
    by simp_all
  from r s obtain x6 x7
    where x6: "\<exists>x5. call (Conv2D (int c') kernel_size strides pad use_bias) x5 = Inr x6"
      and x7: "call InstanceNormalization x6 = Inr x7"
      and y: "layers_add x x7 = Inr y"
    unfolding residual_block_def by (auto simp: bindE_eq_Inr)
  from x6 have "snd (snd (kshape x6)) = c'"
    by (auto simp: call_eq_Inr dest!: conv_channels)
  with x7 have "snd (snd (kshape x7)) = c'"
    by (auto simp: call_eq_Inr)
  from layers_add_shape [OF y s hw this] s show "kshape y = kshape x" by simp
next
  assume "is_activation_layer a \<and> kshape x = (h, w, c) \<and> 0 < h \<and> 0 < w \<and> 0 < c"
  then have "is_activation_layer a" and "kshape x = (h, w, c)"
    and "0 < h" and "0 < w" and "0 < c"
    by simp_all
  then show "result_shape (residual_block x a (3, 3) (1, 1) Valid b) = Some (h, w, c)"
    by (rule residual_block_default_shape)
qed

text \<open>
  The claim as stated, for every input tensor, fails on an axis of size 1, which the
  final \<open>add\<close> broadcasts: with padding "same" each reflection padding grows the
  branch by 2, and a 1x1x3 input gives a 5x5x3 output.
\<close>

theorem residual_block_broadcast_counterexample:
  "result_shape (residual_block (Input (1, 1, 3) None) (Activation Relu) (3, 3) (1, 1) Same False)
     = Some (5, 5, 3)"
  by (simp add: residual_block_def call_def conv_args_ok_def layers_add_def broadcast_dim_def
      result_shape_def Input_def)

lemma residual_block_64:
  "residual_block \<lparr>kshape = (64, 64, 256), knode = Pretrained ''x''\<rparr>
      (Activation Relu) (3, 3) (1, 1) Valid False
     = Inr \<lparr>kshape = (64, 64, 256),
            knode = spec_residual 256 (Pretrained ''x'')\<rparr>"
  by (simp add: residual_block_def call_def layers_add_def broadcast_dim_def conv_args_ok_def
      spec_residual_def)

theorem residual_block_preserves_shape_witness:
  "(\<exists>y. residual_block \<lparr>kshape = (64, 64, 256), knode = Pretrained ''x''\<rparr>
      (Activation Relu) (3, 3) (1, 1) Valid False = Inr y
     \<and> kshape y = (64, 64, 256))
   \<and> result_shape (residual_block \<lparr>kshape = (1, 1, 3), knode = Pretrained ''x''\<rparr>
        (Activation Relu) (3, 3) (1, 1) Valid False) = Some (1, 1, 3)"
proof -
  let ?x = "\<lparr>kshape = (64, 64, 256), knode = Pretrained ''x''\<rparr>"
  let ?y = "\<lparr>kshape = (64, 64, 256), knode = spec_residual 256 (Pretrained ''x'')\<rparr>"
  from residual_block_preserves_shape
    [where x = ?x and y = ?y and activation = "Activation Relu" and kernel_size = "(3, 3)"
       and strides = "(1, 1)" and pad = Valid and use_bias = False, THEN conjunct1]
    residual_block_64
  have "kshape ?y = kshape ?x" by simp
  with residual_block_64 have 1: "\<exists>y. residual_block ?x
      (Activation Relu) (3, 3) (1, 1) Valid False = Inr y \<and> kshape y = (64, 64, 256)"
    by simp
  from residual_block_preserves_shape
    [where x = "\<lparr>kshape = (1, 1, 3), knode = Pretrained ''x''\<rparr>" and a = "Activation Relu"
       and h = 1 and w = 1 and c = 3 and b = False, THEN conjunct2]
  have 2: "result_shape (residual_block \<lparr>kshape = (1, 1, 3), knode = Pretrained ''x''\<rparr>
        (Activation Relu) (3, 3) (1, 1) Valid False) = Some (1, 1, 3)"
    by simp
  from 1 2 show ?thesis by (rule conjI)
qed

section \<open>The ResNet generator\<close>


lemma apply_layers_append:
  "apply_layers (ls1 @ ls2) n = apply_layers ls2 (apply_layers ls1 n)"
  by (induction ls1 arbitrary: n) simp_all

lemma downsample_relu:
  assumes "kshape x = (h, w, c)"
  shows "downsample x f (Some (Activation Relu)) (3, 3) (2, 2) Same False =
     (if 0 < f
      then Inr \<lparr>kshape = ((h + 1) div 2, (w + 1) div 2, nat f),
                knode = apply_layers [Conv2D f (3, 3) (2, 2) Same False,
                          InstanceNormalization, Activation Relu] (knode x)\<rparr>
      else Inl ValueError)"
  using assms by (simp add: downsample_def call_def conv_args_ok_def)

lemma upsample_relu:
  assumes "kshape x = (h, w, c)"
  shows "upsample x f (Some (Activation Relu)) (3, 3) (2, 2) Same False =
     (if 0 < f
      then Inr \<lparr>kshape = (h * 2, w * 2, nat f),
                knode = apply_layers [Conv2DTranspose f (3, 3) (2, 2) Same False,
                          InstanceNormalization, Activation Relu] (knode x)\<rparr>
      else Inl ValueError)"
  using assms by (simp add: upsample_def call_def conv_args_ok_def)

lemma residual_block_relu:
  assumes "kshape x = (h, w, c)"
  shows "residual_block x (Activation Relu) (3, 3) (1, 1) Valid False =
     (if 0 < h \<and> 0 < w \<and> 0 < c
      then Inr \<lparr>kshape = (h, w, c), knode = spec_residual (int c) (knode x)\<rparr>
      else Inl ValueError)"
  using assms
  by (auto simp: residual_block_def call_def conv_args_ok_def layers_add_def broadcast_dim_def
      spec_residual_def)


lemma downsampling_blocks_builds:
  assumes "0 < f" and "kshape x = (h, w, c)" and "c = nat f"
  shows "\<exists>y. downsampling_blocks n f x = Inr (f * 2 ^ n, y)
     \<and> kshape y = ((halve ^^ n) h, (halve ^^ n) w, nat (f * 2 ^ n))
     \<and> knode y = apply_layers (spec_downsampling n f) (knode x)"
  using assms
proof (induction n arbitrary: f x h w c)
  case 0
  then show ?case by simp
next
  case (Suc n)
  let ?x' = "\<lparr>kshape = (halve h, halve w, nat (f * 2)),
                knode = apply_layers [Conv2D (f * 2) (3, 3) (2, 2) Same False,
                          InstanceNormalization, Activation Relu] (knode x)\<rparr>"
  from Suc.prems have d: "downsample x (f * 2) (Some (Activation Relu)) (3, 3) (2, 2) Same False
      = Inr ?x'"
    by (simp add: downsample_relu halve_def)
  from Suc.prems have "0 < f * 2" by simp
  from Suc.IH [OF this, of ?x' "halve h" "halve w" "nat (f * 2)"]
  obtain y where "downsampling_blocks n (f * 2) ?x' = Inr (f * 2 * 2 ^ n, y)"
    and "kshape y = ((halve ^^ n) (halve h), (halve ^^ n) (halve w), nat (f * 2 * 2 ^ n))"
    and "knode y = apply_layers (spec_downsampling n (f * 2)) (knode ?x')"
    by auto
  with d show ?case
    by (simp add: funpow_swap1 mult.commute mult.left_commute)
qed

lemma residual_blocks_Inr:
  assumes "residual_blocks n x = Inr y" and "kshape x = (h, w, c)"
  shows "kshape y = (h, w, c) \<and> knode y = (spec_residual (int c) ^^ n) (knode x)"
  using assms
proof (induction n arbitrary: x)
  case 0
  then show ?case by simp
next
  case (Suc n)
  from Suc.prems obtain x' where
    x': "residual_block x (Activation Relu) (3, 3) (1, 1) Valid False = Inr x'"
    and r: "residual_blocks n x' = Inr y"
    by (auto simp: bindE_eq_Inr)
  from x' have s: "kshape x' = (h, w, c)"
    and n: "knode x' = spec_residual (int c) (knode x)"
    unfolding residual_block_relu [OF Suc.prems(2)] by (auto split: if_splits)
  from Suc.IH [OF r s] n show ?case
    by (simp add: funpow_swap1)
qed

lemma residual_blocks_builds:
  assumes "kshape x = (h, w, c)" and "0 < h" and "0 < w" and "0 < c"
  shows "\<exists>y. residual_blocks n x = Inr y"
  using assms
proof (induction n arbitrary: x)
  case 0
  then show ?case by simp
next
  case (Suc n)
  let ?x' = "\<lparr>kshape = (h, w, c), knode = spec_residual (int c) (knode x)\<rparr>"
  from Suc.prems have "residual_block x (Activation Relu) (3, 3) (1, 1) Valid False = Inr ?x'"
    unfolding residual_block_relu [OF Suc.prems(1)] by simp
  moreover from Suc.IH [of ?x'] Suc.prems obtain y where "residual_blocks n ?x' = Inr y"
    by auto
  ultimately show ?case by simp
qed

lemma upsample_blocks_Inr:
  assumes "upsample_blocks n f x = Inr (f', y)" and "kshape x = (h, w, c)"
  shows "f' = f div 2 ^ n \<and> fst (kshape y) = h * 2 ^ n \<and> fst (snd (kshape y)) = w * 2 ^ n
     \<and> knode y = apply_layers (spec_upsampling n f) (knode x)
     \<and> (0 < c \<longrightarrow> 0 < snd (snd (kshape y)))"
  using assms
proof (induction n arbitrary: f x h w c)
  case 0
  then show ?case by simp
next
  case (Suc n)
  from Suc.prems obtain x' where
    x': "upsample x (f div 2) (Some (Activation Relu)) (3, 3) (2, 2) Same False = Inr x'"
    and r: "upsample_blocks n (f div 2) x' = Inr (f', y)"
    by (auto simp: bindE_eq_Inr)
  from x' Suc.prems(2) have s: "kshape x' = (h * 2, w * 2, nat (f div 2))"
    and n: "knode x' = apply_layers [Conv2DTranspose (f div 2) (3, 3) (2, 2) Same False,
                          InstanceNormalization, Activation Relu] (knode x)"
    and p: "0 < f div 2"
    by (auto simp: upsample_relu split: if_splits)
  from Suc.IH [OF r s] n p show ?case
    by (simp add: zdiv_zmult2_eq)
qed

lemma upsample_blocks_builds:
  assumes "0 < f div 2 ^ n"
  shows "\<exists>y. upsample_blocks n f x = Inr (f div 2 ^ n, y)"
  using assms
proof (induction n arbitrary: f x)
  case 0
  then show ?case by simp
next
  case (Suc n)
  from Suc.prems have p: "0 < (f div 2) div 2 ^ n"
    by (simp add: zdiv_zmult2_eq)
  have "0 < f div 2"
  proof (rule ccontr)
    assume "\<not> 0 < f div 2"
    then have "f div 2 \<le> 0" by simp
    then have "f div 2 div 2 ^ n \<le> 0"
      by (rule div_nonpos_pos_le0) simp
    with p show False by simp
  qed
  obtain h w c where "kshape x = (h, w, c)" by (cases "kshape x") auto
  with \<open>0 < f div 2\<close> obtain x' where
    "upsample x (f div 2) (Some (Activation Relu)) (3, 3) (2, 2) Same False = Inr x'"
    by (simp add: upsample_relu)
  moreover from Suc.IH [OF p, of x'] obtain y where
    "upsample_blocks n (f div 2) x' = Inr (f div 2 div 2 ^ n, y)" by auto
  ultimately show ?case by (auto simp: zdiv_zmult2_eq)
qed

lemma halve_pow2: "(halve ^^ n) (2 ^ (n + j)) = 2 ^ j"
proof (induction n)
  case 0
  then show ?case by simp
next
  case (Suc n)
  have "halve (2 ^ (Suc n + j)) = 2 ^ (n + j)"
    by (simp add: halve_def)
  then show ?case using Suc by (simp add: funpow_swap1)
qed


lemma halve_one: "(halve ^^ n) (Suc 0) = Suc 0"
  by (induction n) (simp_all add: halve_def)

lemma halve_256: "(halve ^^ n) 256 = 2 ^ (8 - n)"
proof (cases "n \<le> 8")
  case True
  then show ?thesis
    using halve_pow2 [of n "8 - n"] by simp
next
  case False
  then obtain k where n: "n = k + 8"
    by (metis add.commute le_Suc_ex nat_le_linear)
  have "(halve ^^ 8) 256 = 1"
    using halve_pow2 [of 8 0] by simp
  then have "(halve ^^ n) 256 = 1"
    by (simp add: n funpow_add halve_one)
  with False show ?thesis by simp
qed

lemma stem_builds:
  "bindE (call (ReflectionPadding2D (3, 3)) (Input (256, 256, 3) None)) (\<lambda>x1.
   bindE (call (Conv2D f (7, 7) (1, 1) Valid False) x1) (\<lambda>x2.
   bindE (call InstanceNormalization x2) (\<lambda>x3.
   bindE (call (Activation Relu) x3) g))) =
     (if 0 < f
      then g \<lparr>kshape = (256, 256, nat f),
               knode = apply_layers (spec_stem f) (InputLayer (256, 256, 3) None)\<rparr>
      else Inl ValueError)"
  by (simp add: call_def Input_def conv_args_ok_def spec_stem_def)

lemma final_builds:
  assumes "kshape x = (h, w, c)"
  shows "bindE (call (ReflectionPadding2D (3, 3)) x) (\<lambda>x8.
         bindE (call (Conv2D 3 (7, 7) (1, 1) Valid True) x8) (\<lambda>x9.
         bindE (call (Activation Tanh) x9) g)) =
     (if 0 < h \<and> 0 < w
      then g \<lparr>kshape = (h, w, 3), knode = apply_layers spec_final (knode x)\<rparr>
      else Inl ValueError)"
  using assms by (simp add: call_def conv_args_ok_def spec_final_def)

lemma generator_graph:
  assumes "get_resnet_generator f N M K name = Inr m"
  shows "0 < f \<and> model_inputs m = Input (256, 256, 3) None \<and> model_name m = name
     \<and> knode (model_outputs m) = spec_resnet_graph f (nat N) (nat M) (nat K)
     \<and> kshape (model_outputs m)
         = ((halve ^^ nat N) 256 * 2 ^ nat K, (halve ^^ nat N) 256 * 2 ^ nat K, 3)"
proof -
  let ?x4 = "\<lparr>kshape = (256, 256, nat f),
               knode = apply_layers (spec_stem f) (InputLayer (256, 256, 3) None)\<rparr>"
  let ?rest = "\<lambda>x4.
      bindE (downsampling_blocks (nat N) f x4) (\<lambda>(filters1, x5).
      bindE (residual_blocks (nat M) x5) (\<lambda>x6.
      bindE (upsample_blocks (nat K) filters1 x6) (\<lambda>(filters2, x7).
      bindE (call (ReflectionPadding2D (3, 3)) x7) (\<lambda>x8.
      bindE (call (Conv2D 3 (7, 7) (1, 1) Valid True) x8) (\<lambda>x9.
      bindE (call (Activation Tanh) x9) (\<lambda>x10.
      Inr \<lparr>model_inputs = Input (256, 256, 3) None, model_outputs = x10,
           model_name = name\<rparr>))))))"
  from assms have a: "(if 0 < f then ?rest ?x4 else Inl ValueError) = Inr m"
    unfolding get_resnet_generator_def Let_def stem_builds .
  then have f: "0 < f" by (auto split: if_splits)
  with a have r: "?rest ?x4 = Inr m" by simp
  from downsampling_blocks_builds [OF f, of ?x4 256 256 "nat f" "nat N"]
  obtain x5 where d: "downsampling_blocks (nat N) f ?x4 = Inr (f * 2 ^ nat N, x5)"
    and s5: "kshape x5 = ((halve ^^ nat N) 256, (halve ^^ nat N) 256, nat (f * 2 ^ nat N))"
    and n5: "knode x5 = apply_layers (spec_downsampling (nat N) f) (knode ?x4)"
    by auto
  from r d obtain x6 where r6: "residual_blocks (nat M) x5 = Inr x6"
    and r': "bindE (upsample_blocks (nat K) (f * 2 ^ nat N) x6) (\<lambda>(filters2, x7).
      bindE (call (ReflectionPadding2D (3, 3)) x7) (\<lambda>x8.
      bindE (call (Conv2D 3 (7, 7) (1, 1) Valid True) x8) (\<lambda>x9.
      bindE (call (Activation Tanh) x9) (\<lambda>x10.
      Inr \<lparr>model_inputs = Input (256, 256, 3) None, model_outputs = x10,
           model_name = name\<rparr>)))) = Inr m"
    by (auto simp: bindE_eq_Inr)
  from residual_blocks_Inr [OF r6 s5] f
  have s6: "kshape x6 = ((halve ^^ nat N) 256, (halve ^^ nat N) 256, nat (f * 2 ^ nat N))"
    and n6: "knode x6 = (spec_residual (f * 2 ^ nat N) ^^ nat M) (knode x5)"
    by simp_all
  from r' obtain f2 x7 where u: "upsample_blocks (nat K) (f * 2 ^ nat N) x6 = Inr (f2, x7)"
    and r'': "bindE (call (ReflectionPadding2D (3, 3)) x7) (\<lambda>x8.
      bindE (call (Conv2D 3 (7, 7) (1, 1) Valid True) x8) (\<lambda>x9.
      bindE (call (Activation Tanh) x9) (\<lambda>x10.
      Inr \<lparr>model_inputs = Input (256, 256, 3) None, model_outputs = x10,
           model_name = name\<rparr>))) = Inr m"
    by (auto simp: bindE_eq_Inr)
  from upsample_blocks_Inr [OF u s6]
  have h7: "fst (kshape x7) = (halve ^^ nat N) 256 * 2 ^ nat K"
    and w7: "fst (snd (kshape x7)) = (halve ^^ nat N) 256 * 2 ^ nat K"
    and n7: "knode x7 = apply_layers (spec_upsampling (nat K) (f * 2 ^ nat N)) (knode x6)"
    by simp_all
  obtain c7 where s7: "kshape x7 = ((halve ^^ nat N) 256 * 2 ^ nat K,
      (halve ^^ nat N) 256 * 2 ^ nat K, c7)"
    using h7 w7 by (cases "kshape x7") auto
  from r'' have "m = \<lparr>model_inputs = Input (256, 256, 3) None,
      model_outputs = \<lparr>kshape = ((halve ^^ nat N) 256 * 2 ^ nat K,
          (halve ^^ nat N) 256 * 2 ^ nat K, 3),
        knode = apply_layers spec_final (knode x7)\<rparr>,
      model_name = name\<rparr>"
    unfolding final_builds [OF s7] by (auto split: if_splits)
  with f n5 n6 n7 show ?thesis
    by (simp add: spec_resnet_graph_def)
qed

lemma generator_builds_general:
  assumes "0 < f" and "0 < f * 2 ^ nat N div 2 ^ nat K"
  shows "\<exists>m. get_resnet_generator f N M K name = Inr m"
proof -
  let ?x4 = "\<lparr>kshape = (256, 256, nat f),
               knode = apply_layers (spec_stem f) (InputLayer (256, 256, 3) None)\<rparr>"
  let ?s = "2 ^ (8 - nat N) :: nat"
  have s0: "0 < ?s" by simp
  from downsampling_blocks_builds [OF assms(1), of ?x4 256 256 "nat f" "nat N"]
  obtain x5 where d: "downsampling_blocks (nat N) f ?x4 = Inr (f * 2 ^ nat N, x5)"
    and s5: "kshape x5 = (?s, ?s, nat (f * 2 ^ nat N))"
    by (auto simp: halve_256)
  from assms(1) have cpos: "0 < nat (f * 2 ^ nat N)" by simp
  from residual_blocks_builds [OF s5 s0 s0 cpos, of "nat M"]
  obtain x6 where r6: "residual_blocks (nat M) x5 = Inr x6" by auto
  from residual_blocks_Inr [OF r6 s5]
  have s6: "kshape x6 = (?s, ?s, nat (f * 2 ^ nat N))" by simp
  from upsample_blocks_builds [OF assms(2), of x6]
  obtain x7 where u: "upsample_blocks (nat K) (f * 2 ^ nat N) x6
      = Inr (f * 2 ^ nat N div 2 ^ nat K, x7)" by auto
  from upsample_blocks_Inr [OF u s6]
  have "fst (kshape x7) = ?s * 2 ^ nat K" "fst (snd (kshape x7)) = ?s * 2 ^ nat K"
    by simp_all
  then obtain c7 where s7: "kshape x7 = (?s * 2 ^ nat K, ?s * 2 ^ nat K, c7)"
    by (cases "kshape x7") auto
  have fin: "bindE (call (ReflectionPadding2D (3, 3)) x7) (\<lambda>x8.
      bindE (call (Conv2D 3 (7, 7) (1, 1) Valid True) x8) (\<lambda>x9.
      bindE (call (Activation Tanh) x9) (\<lambda>x10.
      Inr \<lparr>model_inputs = Input (256, 256, 3) None, model_outputs = x10,
           model_name = name\<rparr>)))
     = Inr \<lparr>model_inputs = Input (256, 256, 3) None,
          model_outputs = \<lparr>kshape = (?s * 2 ^ nat K, ?s * 2 ^ nat K, 3),
            knode = apply_layers spec_final (knode x7)\<rparr>,
          model_name = name\<rparr>"
    unfolding final_builds [OF s7] by simp
  show ?thesis
    unfolding get_resnet_generator_def Let_def stem_builds
    using assms(1) d r6 u fin by simp
qed

lemma generator_builds:
  assumes "0 < f" and "nat K \<le> nat N"
  shows "\<exists>m. get_resnet_generator f N M K name = Inr m"
proof (rule generator_builds_general [OF assms(1)])
  from assms(2) have "(2::int) ^ nat N = 2 ^ (nat N - nat K) * 2 ^ nat K"
    by (simp flip: power_add)
  then have "f * 2 ^ nat N div 2 ^ nat K = f * 2 ^ (nat N - nat K)"
    by simp
  with assms(1) show "0 < f * 2 ^ nat N div 2 ^ nat K"
    by simp
qed

lemma generator_output_256:
  "(2::nat) ^ (8 - n) * 2 ^ k = 256 \<longleftrightarrow> k = min n 8"
proof -
  have "(2::nat) ^ (8 - n) * 2 ^ k = 2 ^ (8 - n + k)"
    by (simp add: power_add)
  moreover have "(256::nat) = 2 ^ 8" by simp
  ultimately have "(2::nat) ^ (8 - n) * 2 ^ k = 256 \<longleftrightarrow> 8 - n + k = 8"
    by (simp only: power_inject_exp [of 2] one_less_numeral_iff semiring_norm)
  also have "\<dots> \<longleftrightarrow> k = min n 8" by auto
  finally show ?thesis .
qed

text \<open>
  C1 (as amended). A model built by \<open>get_resnet_generator\<close> has an output shape equal
  to its input shape (256, 256, 3) exactly when \<open>num_upsample_blocks\<close> equals
  \<open>num_downsampling_blocks\<close> capped at 8 (a count below 0 builds no block and acts as
  0), for any filter count and any number of residual blocks; in particular whenever the
  two counts are equal and at most 8. For every such combination with a positive filter
  count the model is built.
\<close>

theorem get_resnet_generator_output_shape:
  "(0 < filters \<and> nat K = min (nat N) 8 \<longrightarrow>
      (\<exists>m. get_resnet_generator filters N M K name = Inr m))
   \<and> (\<forall>m. get_resnet_generator filters N M K name = Inr m \<longrightarrow>
         kshape (model_inputs m) = (256, 256, 3)
         \<and> (kshape (model_outputs m) = kshape (model_inputs m) \<longleftrightarrow> nat K = min (nat N) 8)
         \<and> (N = K \<and> N \<le> 8 \<longrightarrow> kshape (model_outputs m) = (256, 256, 3)))"
proof (intro conjI impI allI)
  assume a: "0 < filters \<and> nat K = min (nat N) 8"
  then have "0 < filters" and "nat K \<le> nat N" by simp_all
  then show "\<exists>m. get_resnet_generator filters N M K name = Inr m"
    by (rule generator_builds)
next
  fix m assume b: "get_resnet_generator filters N M K name = Inr m"
  from generator_graph [OF b]
  have i: "model_inputs m = Input (256, 256, 3) None"
    and o: "kshape (model_outputs m)
         = (2 ^ (8 - nat N) * 2 ^ nat K, 2 ^ (8 - nat N) * 2 ^ nat K, 3)"
    by (simp_all add: halve_256)
  from i show i': "kshape (model_inputs m) = (256, 256, 3)"
    by (simp add: Input_def)
  from o i' show iff: "kshape (model_outputs m) = kshape (model_inputs m)
      \<longleftrightarrow> nat K = min (nat N) 8"
    by (simp add: generator_output_256)
  assume "N = K \<and> N \<le> 8"
  then have "nat K = min (nat N) 8" by linarith
  with iff i' show "kshape (model_outputs m) = (256, 256, 3)" by simp
qed

theorem get_resnet_generator_output_shape_witness:
  "(0::int) < 64 \<and> nat 2 = min (nat 2) 8
   \<and> (\<exists>m. get_resnet_generator 64 2 5 2 None = Inr m
          \<and> kshape (model_outputs m) = (256, 256, 3)
          \<and> kshape (model_inputs m) = (256, 256, 3))"
proof -
  note t = get_resnet_generator_output_shape [of 64 2 2 5 None]
  from t [THEN conjunct1] obtain m where m: "get_resnet_generator 64 2 5 2 None = Inr m"
    by auto
  from t [THEN conjunct2, THEN spec, of m] m
  have "kshape (model_outputs m) = (256, 256, 3) \<and> kshape (model_inputs m) = (256, 256, 3)"
    by simp
  with m show ?thesis by simp
qed

text \<open>
  The claim as stated, for every valid combination of the parameters, fails when the
  two block counts differ, and when they are equal but above 8. With two downsampling
  blocks and one upsampling block the model maps its 256x256x3 input to a 128x128x3
  output; with nine of each the ninth downsampling block leaves the 1x1 map at 1x1 and
  the nine upsampling blocks give 512x512x3.
\<close>

theorem get_resnet_generator_unbalanced_counterexample:
  "built_input_shape (get_resnet_generator 64 2 5 1 None) = Some (256, 256, 3)
   \<and> built_output_shape (get_resnet_generator 64 2 5 1 None) = Some (128, 128, 3)
   \<and> built_input_shape (get_resnet_generator 1 9 1 9 None) = Some (256, 256, 3)
   \<and> built_output_shape (get_resnet_generator 1 9 1 9 None) = Some (512, 512, 3)"
proof -
  have "\<exists>m. get_resnet_generator 64 2 5 1 None = Inr m"
    by (rule generator_builds) simp_all
  then obtain m where m: "get_resnet_generator 64 2 5 1 None = Inr m" ..
  from generator_graph [OF m]
  have "model_inputs m = Input (256, 256, 3) None"
    and "kshape (model_outputs m) = (128, 128, 3)"
    by (simp_all add: halve_256)
  with m have 1: "built_input_shape (get_resnet_generator 64 2 5 1 None) = Some (256, 256, 3)
      \<and> built_output_shape (get_resnet_generator 64 2 5 1 None) = Some (128, 128, 3)"
    by (simp add: built_input_shape_def built_output_shape_def Input_def)
  have "\<exists>m. get_resnet_generator 1 9 1 9 None = Inr m"
    by (rule generator_builds) simp_all
  then obtain m' where m': "get_resnet_generator 1 9 1 9 None = Inr m'" ..
  from generator_graph [OF m']
  have "model_inputs m' = Input (256, 256, 3) None"
    and "kshape (model_outputs m') = (512, 512, 3)"
    by (simp_all add: halve_256)
  with m' have 2: "built_input_shape (get_resnet_generator 1 9 1 9 None) = Some (256, 256, 3)
      \<and> built_output_shape (get_resnet_generator 1 9 1 9 None) = Some (512, 512, 3)"
    by (simp add: built_input_shape_def built_output_shape_def Input_def)
  from 1 2 show ?thesis by simp
qed

text \<open>
  C7. A model built by \<open>get_resnet_generator\<close> is the layer sequence of the
  specification: input (256x256x3), reflect-pad(3,3), 7x7 convolution, instance norm,
  ReLU, N downsampling blocks with doubling channel counts, M residual blocks at a fixed
  channel count, K upsampling blocks with (integer) halving channel counts,
  reflect-pad(3,3), 7x7 convolution to 3 channels, tanh. With the defaults N = 2, M = 5,
  K = 2 the model is built and its output has shape 256x256x3. The last layer of every
  model built is the tanh activation, every component of whose result lies in [-1, 1].
  The model is built for every positive filter count when there are no more upsampling
  than downsampling blocks.
\<close>

theorem get_resnet_generator_structure:
  "(\<forall>m. get_resnet_generator filters N M K name = Inr m \<longrightarrow>
        model_inputs m = Input (256, 256, 3) None
        \<and> knode (model_outputs m)
            = apply_layers spec_final
                (apply_layers (spec_upsampling (nat K) (filters * 2 ^ nat N))
                   ((spec_residual (filters * 2 ^ nat N) ^^ nat M)
                      (apply_layers (spec_downsampling (nat N) filters)
                         (apply_layers (spec_stem filters) (knode (model_inputs m))))))
        \<and> (\<exists>n. knode (model_outputs m) = Apply (Activation Tanh) n))
   \<and> (0 < filters \<and> nat K \<le> nat N \<longrightarrow>
        (\<exists>m. get_resnet_generator filters N M K name = Inr m))
   \<and> get_resnet_generator_default = get_resnet_generator 64 2 5 2 None
   \<and> (\<exists>m. get_resnet_generator_default = Inr m
          \<and> kshape (model_outputs m) = (256, 256, 3)
          \<and> (\<exists>n. knode (model_outputs m) = Apply (Activation Tanh) n))
   \<and> (\<forall>t. \<forall>v \<in> set (components (Activation_call Tanh t)). - 1 \<le> v \<and> v \<le> 1)"
proof (intro conjI allI impI ballI)
  fix m assume "get_resnet_generator filters N M K name = Inr m"
  from generator_graph [OF this]
  show "model_inputs m = Input (256, 256, 3) None"
    and "knode (model_outputs m)
            = apply_layers spec_final
                (apply_layers (spec_upsampling (nat K) (filters * 2 ^ nat N))
                   ((spec_residual (filters * 2 ^ nat N) ^^ nat M)
                      (apply_layers (spec_downsampling (nat N) filters)
                         (apply_layers (spec_stem filters) (knode (model_inputs m))))))"
    and "\<exists>n. knode (model_outputs m) = Apply (Activation Tanh) n"
    by (simp_all add: spec_resnet_graph_def Input_def spec_final_def)
next
  assume "0 < filters \<and> nat K \<le> nat N"
  then have "0 < filters" and "nat K \<le> nat N" by simp_all
  then show "\<exists>m. get_resnet_generator filters N M K name = Inr m"
    by (rule generator_builds)
next
  show "get_resnet_generator_default = get_resnet_generator 64 2 5 2 None"
    by (simp add: get_resnet_generator_default_def)
next
  from generator_builds [of 64 2 2 5 None]
  obtain m where m: "get_resnet_generator 64 2 5 2 None = Inr m" by auto
  from generator_graph [OF m]
  have o: "kshape (model_outputs m) = ((halve ^^ 2) 256 * 2 ^ 2, (halve ^^ 2) 256 * 2 ^ 2, 3)"
    and g: "knode (model_outputs m) = spec_resnet_graph 64 2 5 2"
    by simp_all
  have "(halve ^^ 2) 256 = 64"
    using halve_pow2 [of 2 6] by simp
  with o have "kshape (model_outputs m) = (256, 256, 3)" by simp
  moreover from g have "\<exists>n. knode (model_outputs m) = Apply (Activation Tanh) n"
    by (simp add: spec_resnet_graph_def spec_final_def)
  ultimately show "\<exists>m. get_resnet_generator_default = Inr m
          \<and> kshape (model_outputs m) = (256, 256, 3)
          \<and> (\<exists>n. knode (model_outputs m) = Apply (Activation Tanh) n)"
    using m by (simp add: get_resnet_generator_default_def)
next
  fix t :: "real tensor4" and v
  assume "v \<in> set (components (Activation_call Tanh t))"
  then obtain u where "v = tanh u"
    by (auto simp: components_def Activation_call_def activation_fn_def)
  then show "- 1 \<le> v" and "v \<le> 1"
    using tanh_real_gt_neg1 [of u] tanh_real_lt_1 [of u] by simp_all
qed

theorem get_resnet_generator_structure_witness:
  "(\<exists>m. get_resnet_generator 64 2 5 2 None = Inr m
      \<and> knode (model_outputs m)
            = apply_layers spec_final
                (apply_layers (spec_upsampling 2 256)
                   ((spec_residual 256 ^^ 5)
                      (apply_layers (spec_downsampling 2 64)
                         (apply_layers (spec_stem 64) (InputLayer (256, 256, 3) None))))))
   \<and> activation_fn Tanh 1 \<in> set (components (Activation_call Tanh [[[[0, 1]]]]))
   \<and> - 1 \<le> activation_fn Tanh 1 \<and> activation_fn Tanh 1 \<le> 1"
proof -
  note t = get_resnet_generator_structure [of 64 2 5 2 None]
  from t [THEN conjunct2, THEN conjunct2, THEN conjunct2, THEN conjunct1]
  obtain m where m: "get_resnet_generator 64 2 5 2 None = Inr m"
    by (auto simp: get_resnet_generator_default_def)
  from t [THEN conjunct1, THEN spec, of m] m have "knode (model_outputs m)
            = apply_layers spec_final
                (apply_layers (spec_upsampling 2 256)
                   ((spec_residual 256 ^^ 5)
                      (apply_layers (spec_downsampling 2 64)
                         (apply_layers (spec_stem 64) (InputLayer (256, 256, 3) None)))))"
    by (simp add: Input_def)
  moreover have c: "activation_fn Tanh 1 \<in> set (components (Activation_call Tanh [[[[0, 1]]]]))"
    by (simp add: components_def Activation_call_def)
  moreover from t [THEN conjunct2, THEN conjunct2, THEN conjunct2, THEN conjunct2,
      THEN spec, THEN bspec, OF c]
  have "- 1 \<le> activation_fn Tanh 1 \<and> activation_fn Tanh 1 \<le> 1" .
  ultimately show ?thesis using m by blast
qed

section \<open>Reflection padding on data\<close>

lemma tensor_dims_iff:
  "tensor_dims t = Some (b, h, w, c) \<longleftrightarrow>
     0 < b \<and> 0 < h \<and> 0 < w \<and> 0 < c \<and> has_shape4 t b h w c"
  by (auto simp: tensor_dims_def has_shape4_def split: list.splits)

lemma mirror_pad_length: "p < length xs \<Longrightarrow> length (mirror_pad p xs) = length xs + 2 * p"
  by (simp add: mirror_pad_def)

lemma set_tl_subset: "set (tl xs) \<subseteq> set xs"
  by (cases xs) auto

lemma set_mirror_pad: "set (mirror_pad p xs) \<subseteq> set xs"
proof -
  have "set (take p (tl xs)) \<subseteq> set xs"
    using set_take_subset [of p "tl xs"] set_tl_subset [of xs] by blast
  moreover have "set (take p (tl (rev xs))) \<subseteq> set xs"
    using set_take_subset [of p "tl (rev xs)"] set_tl_subset [of "rev xs"] by auto
  ultimately show ?thesis by (auto simp: mirror_pad_def)
qed

lemma mirror_pad_nth:
  assumes "p < length xs" and "i < length xs + 2 * p"
  shows "mirror_pad p xs ! i = xs ! spec_reflect_index p (length xs) i"
proof -
  let ?n = "length xs"
  have l: "length (rev (take p (tl xs))) = p" using assms(1) by simp
  consider "i < p" | "p \<le> i" "i < p + ?n" | "p + ?n \<le> i" by linarith
  then show ?thesis
  proof cases
    case 1
    then have "mirror_pad p xs ! i = rev (take p (tl xs)) ! i"
      using l unfolding mirror_pad_def by (simp only: nth_append if_True)
    also have "\<dots> = take p (tl xs) ! (p - Suc i)"
      using 1 assms(1) by (simp add: rev_nth)
    also have "\<dots> = xs ! (p - i)"
      using 1 assms(1) by (simp add: nth_tl Suc_diff_Suc)
    finally show ?thesis using 1 by (simp add: spec_reflect_index_def)
  next
    case 2
    then have "i - p < length xs" by linarith
    with 2 have "mirror_pad p xs ! i = xs ! (i - p)"
      using l assms(1) by (simp add: mirror_pad_def nth_append)
    then show ?thesis using 2 by (simp add: spec_reflect_index_def)
  next
    case 3
    let ?k = "i - p - ?n"
    have k: "?k < p" using 3 assms(2) by simp
    from 3 have "\<not> i < p" and "\<not> i - p < length xs" by linarith+
    then have "mirror_pad p xs ! i = take p (tl (rev xs)) ! ?k"
      using l unfolding mirror_pad_def by (simp only: nth_append if_False)
    also have "\<dots> = rev xs ! Suc ?k"
      using k assms(1) by (simp add: nth_tl)
    also have "\<dots> = xs ! (?n - Suc (Suc ?k))"
      using k assms(1) by (simp add: rev_nth)
    also have "?n - Suc (Suc ?k) = 2 * ?n - 2 - (i - p)"
      using 3 k assms by simp
    finally show ?thesis using 3 by (simp add: spec_reflect_index_def)
  qed
qed


lemma pad_image_shape:
  assumes "length img = h" and "\<forall>row \<in> set img. length row = w \<and> (\<forall>px \<in> set row. length px = c)"
    and "ph < h" and "pw < w"
  shows "length (mirror_pad ph (map (mirror_pad pw) img)) = h + 2 * ph"
    and "\<forall>row \<in> set (mirror_pad ph (map (mirror_pad pw) img)).
           length row = w + 2 * pw \<and> (\<forall>px \<in> set row. length px = c)"
proof -
  show "length (mirror_pad ph (map (mirror_pad pw) img)) = h + 2 * ph"
    using assms(1,3) by (simp add: mirror_pad_length)
  show "\<forall>row \<in> set (mirror_pad ph (map (mirror_pad pw) img)).
           length row = w + 2 * pw \<and> (\<forall>px \<in> set row. length px = c)"
  proof
    fix row' assume a: "row' \<in> set (mirror_pad ph (map (mirror_pad pw) img))"
    have "set (mirror_pad ph (map (mirror_pad pw) img)) \<subseteq> set (map (mirror_pad pw) img)"
      by (rule set_mirror_pad)
    with a have "row' \<in> mirror_pad pw ` set img"
      by (simp only: set_map) (erule (1) subsetD [rotated])
    then obtain row where r: "row \<in> set img" and r': "row' = mirror_pad pw row"
      by (rule imageE)
    from r assms(2) have lw: "length row = w" and lc: "\<forall>px \<in> set row. length px = c" by auto
    from lw assms(4) have "length row' = w + 2 * pw"
      by (simp add: r' mirror_pad_length)
    moreover have "set row' \<subseteq> set row"
      unfolding r' by (rule set_mirror_pad)
    with lc have "\<forall>px \<in> set row'. length px = c"
      by blast
    ultimately show "length row' = w + 2 * pw \<and> (\<forall>px \<in> set row'. length px = c)" by simp
  qed
qed


lemma pad_image_nth:
  assumes "length img = h" and "\<forall>row \<in> set img. length row = w"
    and "ph < h" and "pw < w" and "i < h + 2 * ph" and "j < w + 2 * pw"
  shows "mirror_pad ph (map (mirror_pad pw) img) ! i ! j
           = img ! spec_reflect_index ph h i ! spec_reflect_index pw w j"
proof -
  let ?ri = "spec_reflect_index ph h i"
  have ri: "?ri < h"
    using assms(3,5) by (auto simp: spec_reflect_index_def)
  have "mirror_pad ph (map (mirror_pad pw) img) ! i = map (mirror_pad pw) img ! ?ri"
    using mirror_pad_nth [of ph "map (mirror_pad pw) img" i] assms(1,3,5) by simp
  also have "\<dots> = mirror_pad pw (img ! ?ri)"
    using ri assms(1) by simp
  finally have "mirror_pad ph (map (mirror_pad pw) img) ! i ! j = mirror_pad pw (img ! ?ri) ! j"
    by simp
  moreover have "length (img ! ?ri) = w"
    using ri assms(1,2) by (metis nth_mem)
  ultimately show ?thesis
    using mirror_pad_nth [of pw "img ! ?ri" j] assms(4,6) by simp
qed




text \<open>
  C9 (as amended). On a 4D tensor of shape (batch, height, width, channels) with no
  empty axis (batch > 0 and channels > 0) and a padding pair \<open>(width_pad, height_pad)\<close>
  of non-negative amounts with \<open>height_pad < height\<close> and \<open>width_pad < width\<close>,
  \<open>ReflectionPadding2D\<close> returns a tensor of shape
  (batch, height + 2 * height_pad, width + 2 * width_pad, channels) whose every entry is
  the entry of the input at the mirrored position, and the layer has no trainable
  parameter.
\<close>

theorem ReflectionPadding2D_reflects:
  assumes "has_shape4 t b h w c" and "0 < b" and "0 < c" and "ph < h" and "pw < w"
  shows "\<exists>t'. ReflectionPadding2D_call (pw, ph) t = Inr t'
     \<and> tensor_dims t' = Some (b, h + 2 * ph, w + 2 * pw, c)
     \<and> (\<forall>n < b. \<forall>i < h + 2 * ph. \<forall>j < w + 2 * pw.
           t' ! n ! i ! j = t ! n ! spec_reflect_index ph h i ! spec_reflect_index pw w j)
     \<and> compute_output_shape (ReflectionPadding2D (pw, ph)) (h, w, c)
           = Inr (h + 2 * ph, w + 2 * pw, c)
     \<and> count_params (ReflectionPadding2D (pw, ph)) (h, w, c) = 0"
proof -
  let ?F = "\<lambda>img. mirror_pad ph (map (mirror_pad pw) img)"
  from assms have pos: "0 < b" "0 < h" "0 < w" "0 < c" and sh: "has_shape4 t b h w c"
    by simp_all
  then have td: "tensor_dims t = Some (b, h, w, c)"
    by (simp add: tensor_dims_iff)
  from sh have len: "length t = b"
    and imgs: "\<And>img. img \<in> set t \<Longrightarrow> length img = h
          \<and> (\<forall>row \<in> set img. length row = w \<and> (\<forall>px \<in> set row. length px = c))"
    by (auto simp: has_shape4_def)
  have call: "ReflectionPadding2D_call (pw, ph) t = Inr (map ?F t)"
    using td assms(4,5) by (simp add: ReflectionPadding2D_call_def)
  have "has_shape4 (map ?F t) b (h + 2 * ph) (w + 2 * pw) c"
    unfolding has_shape4_def
  proof (intro conjI ballI)
    show "length (map ?F t) = b" using len by simp
  next
    fix img' assume "img' \<in> set (map ?F t)"
    then obtain img where i: "img \<in> set t" and i': "img' = ?F img" by auto
    from imgs [OF i] show "length img' = h + 2 * ph"
      using pad_image_shape(1) [of img h w c ph pw] assms(4,5) by (simp add: i')
    fix row assume r: "row \<in> set img'"
    from imgs [OF i] have "\<forall>row \<in> set img'.
           length row = w + 2 * pw \<and> (\<forall>px \<in> set row. length px = c)"
      using pad_image_shape(2) [of img h w c ph pw] assms(4,5) by (simp add: i')
    with r show "length row = w + 2 * pw" by simp
    fix px assume "px \<in> set row"
    with r \<open>\<forall>row \<in> set img'. length row = w + 2 * pw \<and> (\<forall>px \<in> set row. length px = c)\<close>
    show "length px = c" by simp
  qed
  with pos have dims: "tensor_dims (map ?F t) = Some (b, h + 2 * ph, w + 2 * pw, c)"
    by (simp add: tensor_dims_iff)
  have vals: "\<forall>n < b. \<forall>i < h + 2 * ph. \<forall>j < w + 2 * pw.
      map ?F t ! n ! i ! j = t ! n ! spec_reflect_index ph h i ! spec_reflect_index pw w j"
  proof (intro allI impI)
    fix n i j assume n: "n < b" and i: "i < h + 2 * ph" and j: "j < w + 2 * pw"
    from n len have "t ! n \<in> set t" by simp
    from imgs [OF this] have "length (t ! n) = h" "\<forall>row \<in> set (t ! n). length row = w"
      by auto
    from pad_image_nth [OF this assms(4,5) i j] n len
    show "map ?F t ! n ! i ! j = t ! n ! spec_reflect_index ph h i ! spec_reflect_index pw w j"
      by simp
  qed
  from call dims vals assms(4,5) pos show ?thesis by simp
qed

text \<open>
  The claim as stated, for every tensor and every padding pair, fails when an amount
  reaches the size of its axis, and on a tensor with an empty axis: the layer raises on
  a 1x1 image with the default padding \<open>(1, 1)\<close>, on an empty batch and on a tensor
  with no channel.
\<close>

theorem ReflectionPadding2D_too_wide_counterexample:
  "has_shape4 [[[[0::int]]]] 1 1 1 1
   \<and> ReflectionPadding2D_call (1, 1) [[[[0::int]]]] = Inl InvalidArgumentError
   \<and> has_shape4 ([] :: int tensor4) 0 2 2 1
   \<and> ReflectionPadding2D_call (1, 1) ([] :: int tensor4) = Inl InvalidArgumentError
   \<and> has_shape4 ([[[[], []], [[], []]]] :: int tensor4) 1 2 2 0
   \<and> ReflectionPadding2D_call (1, 1) ([[[[], []], [[], []]]] :: int tensor4)
        = Inl InvalidArgumentError"
  by (simp add: ReflectionPadding2D_call_def tensor_dims_def has_shape4_def)

theorem ReflectionPadding2D_reflects_witness:
  "has_shape4 [[[[1::int], [2], [3]], [[4], [5], [6]]]] 1 2 3 1
   \<and> ReflectionPadding2D_call (2, 1) [[[[1::int], [2], [3]], [[4], [5], [6]]]]
       = Inr [[[[6], [5], [4], [5], [6], [5], [4]],
               [[3], [2], [1], [2], [3], [2], [1]],
               [[6], [5], [4], [5], [6], [5], [4]],
               [[3], [2], [1], [2], [3], [2], [1]]]]
   \<and> tensor_dims [[[[6::int], [5], [4], [5], [6], [5], [4]],
               [[3], [2], [1], [2], [3], [2], [1]],
               [[6], [5], [4], [5], [6], [5], [4]],
               [[3], [2], [1], [2], [3], [2], [1]]]] = Some (1, 4, 7, 1)"
proof -
  have d: "has_shape4 [[[[1::int], [2], [3]], [[4], [5], [6]]]] 1 2 3 1"
    by (simp add: has_shape4_def)
  have d0: "tensor_dims [[[[1::int], [2], [3]], [[4], [5], [6]]]] = Some (1, 2, 3, 1)"
    by (simp add: tensor_dims_def has_shape4_def)
  have c: "ReflectionPadding2D_call (2, 1) [[[[1::int], [2], [3]], [[4], [5], [6]]]]
       = Inr [[[[6], [5], [4], [5], [6], [5], [4]],
               [[3], [2], [1], [2], [3], [2], [1]],
               [[6], [5], [4], [5], [6], [5], [4]],
               [[3], [2], [1], [2], [3], [2], [1]]]]"
    by (simp add: ReflectionPadding2D_call_def d0 mirror_pad_def)
  have p: "(0::nat) < 1" "(0::nat) < 1" "(1::nat) < 2" "(2::nat) < 3" by simp_all
  from ReflectionPadding2D_reflects [OF d p] obtain t'
    where t': "ReflectionPadding2D_call (2, 1) [[[[1::int], [2], [3]], [[4], [5], [6]]]] = Inr t'"
      and d': "tensor_dims t' = Some (1, 2 + 2 * 1, 3 + 2 * 2, 1)"
    by (elim exE conjE) simp_all
  from t' c have "t' = [[[[6], [5], [4], [5], [6], [5], [4]],
               [[3], [2], [1], [2], [3], [2], [1]],
               [[6], [5], [4], [5], [6], [5], [4]],
               [[3], [2], [1], [2], [3], [2], [1]]]]"
    by simp
  with d' have "tensor_dims [[[[6::int], [5], [4], [5], [6], [5], [4]],
               [[3], [2], [1], [2], [3], [2], [1]],
               [[6], [5], [4], [5], [6], [5], [4]],
               [[3], [2], [1], [2], [3], [2], [1]]]] = Some (1, 4, 7, 1)"
    by simp
  with c d show ?thesis by (simp only: simp_thms)
qed

section \<open>The discriminator\<close>

lemma discriminator_graph:
  assumes "get_discriminator filters nd name = Inr m"
  shows "0 < filters
     \<and> (\<exists>nm. name = Some nm
           \<and> model_inputs m = Input (256, 256, 3) (Some (nm @ ''_img_input'')))
     \<and> model_outputs m = \<lparr>kshape = (32, 32, 1),
          knode = apply_layers (spec_discriminator filters) (knode (model_inputs m))\<rparr>"
  using assms
  apply (cases name)
   apply (simp add: get_discriminator_def str_concat_def)
  apply (cases "0 < filters")
   apply (auto simp add: get_discriminator_def str_concat_def Let_def call_def Input_def
      conv_args_ok_def downsample_activation spec_discriminator_def spec_disc_stage_def)
  done

lemma discriminator_builds:
  "0 < filters \<Longrightarrow> \<exists>m. get_discriminator filters nd (Some nm) = Inr m"
  by (simp add: get_discriminator_def str_concat_def Let_def call_def Input_def
      conv_args_ok_def downsample_activation)

lemma discriminator_disc_X:
  "get_discriminator 64 3 (Some ''disc_X'') =
     Inr \<lparr>model_inputs = Input (256, 256, 3) (Some ''disc_X_img_input''),
          model_outputs = \<lparr>kshape = (32, 32, 1),
            knode = apply_layers (spec_discriminator 64)
                      (InputLayer (256, 256, 3) (Some ''disc_X_img_input''))\<rparr>,
          model_name = Some ''disc_X''\<rparr>"
  by (simp add: get_discriminator_def str_concat_def Let_def call_def Input_def
      conv_args_ok_def downsample_def spec_discriminator_def spec_disc_stage_def)

text \<open>
  C2. Each of the three builders, called with its default arguments, returns a model
  without raising. The code does not: \<open>get_discriminator()\<close> evaluates
  \<open>name + "_img_input"\<close> with the default \<open>name=None\<close> and raises \<open>TypeError\<close>
  before any layer is built.
\<close>

theorem get_discriminator_default_raises:
  "get_discriminator_default = Inl TypeError"
  by (simp add: get_discriminator_default_def get_discriminator_def str_concat_def)

text \<open>
  C6. For every valid filter count the discriminator is built (given a name), and the
  output of any discriminator that is built is a spatial map \<open>(H', W', 1)\<close> with
  \<open>H' < 256\<close> and \<open>W' < 256\<close>, namely \<open>(32, 32, 1)\<close>; its last layer is the 4x4
  stride-1 convolution to one channel, not an activation.
\<close>

theorem get_discriminator_patch_logits:
  "(0 < filters \<longrightarrow> (\<exists>m. get_discriminator filters num_downsampling (Some nm) = Inr m))
   \<and> (\<forall>m. get_discriminator filters num_downsampling name = Inr m \<longrightarrow>
         (\<exists>H' W'. kshape (model_outputs m) = (H', W', 1) \<and> H' < 256 \<and> W' < 256)
         \<and> kshape (model_outputs m) = (32, 32, 1)
         \<and> (\<exists>n. knode (model_outputs m) = Apply (Conv2D 1 (4, 4) (1, 1) Same True) n)
         \<and> \<not> is_activation_layer (last (spec_discriminator filters))
         \<and> knode (model_outputs m)
             = apply_layers (spec_discriminator filters) (knode (model_inputs m)))"
proof (intro conjI impI allI)
  fix m assume b: "get_discriminator filters num_downsampling name = Inr m"
  note g = discriminator_graph [OF b]
  from g show "kshape (model_outputs m) = (32, 32, 1)" by simp
  then show "\<exists>H' W'. kshape (model_outputs m) = (H', W', 1) \<and> H' < 256 \<and> W' < 256"
    by simp
  from g show "knode (model_outputs m)
      = apply_layers (spec_discriminator filters) (knode (model_inputs m))"
    by simp
  then show "\<exists>n. knode (model_outputs m) = Apply (Conv2D 1 (4, 4) (1, 1) Same True) n"
    by (simp add: spec_discriminator_def spec_disc_stage_def)
  show "\<not> is_activation_layer (last (spec_discriminator filters))"
    by (simp add: spec_discriminator_def spec_disc_stage_def)
qed (rule discriminator_builds)

theorem get_discriminator_patch_logits_witness:
  "(0::int) < 64
   \<and> (\<exists>m. get_discriminator 64 3 (Some ''disc_X'') = Inr m
          \<and> kshape (model_outputs m) = (32, 32, 1)
          \<and> (\<exists>n. knode (model_outputs m) = Apply (Conv2D 1 (4, 4) (1, 1) Same True) n))"
  using get_discriminator_patch_logits [of 64 3 "''disc_X''" "Some ''disc_X''"]
  by (simp add: discriminator_disc_X Input_def)

text \<open>
  C10. \<open>get_discriminator\<close> builds the same model for any two values of
  \<open>num_downsampling\<close>, the other arguments being equal; a model it builds has the three
  downsampling stages of the specification whatever the value is.
\<close>

theorem get_discriminator_ignores_num_downsampling:
  "get_discriminator filters v1 name = get_discriminator filters v2 name
   \<and> (\<forall>m. get_discriminator filters v1 name = Inr m \<longrightarrow>
         knode (model_outputs m)
           = apply_layers
               ([Conv2D filters (4, 4) (2, 2) Same True, LeakyReLU 0.2]
                  @ spec_disc_stage (2 * filters) (2, 2)
                  @ spec_disc_stage (4 * filters) (2, 2)
                  @ spec_disc_stage (8 * filters) (1, 1)
                  @ [Conv2D 1 (4, 4) (1, 1) Same True])
               (knode (model_inputs m)))"
proof (intro conjI allI impI)
  show "get_discriminator filters v1 name = get_discriminator filters v2 name"
    by (simp add: get_discriminator_def)
next
  fix m assume "get_discriminator filters v1 name = Inr m"
  from discriminator_graph [OF this]
  show "knode (model_outputs m)
           = apply_layers
               ([Conv2D filters (4, 4) (2, 2) Same True, LeakyReLU 0.2]
                  @ spec_disc_stage (2 * filters) (2, 2)
                  @ spec_disc_stage (4 * filters) (2, 2)
                  @ spec_disc_stage (8 * filters) (1, 1)
                  @ [Conv2D 1 (4, 4) (1, 1) Same True])
               (knode (model_inputs m))"
    by (simp add: spec_discriminator_def)
qed

theorem get_discriminator_ignores_num_downsampling_witness:
  "get_discriminator 64 7 (Some ''disc_X'') = get_discriminator 64 3 (Some ''disc_X'')
   \<and> (\<exists>m. get_discriminator 64 7 (Some ''disc_X'') = Inr m
         \<and> knode (model_outputs m)
           = apply_layers
               ([Conv2D 64 (4, 4) (2, 2) Same True, LeakyReLU 0.2]
                  @ spec_disc_stage (2 * 64) (2, 2)
                  @ spec_disc_stage (4 * 64) (2, 2)
                  @ spec_disc_stage (8 * 64) (1, 1)
                  @ [Conv2D 1 (4, 4) (1, 1) Same True])
               (knode (model_inputs m)))"
  using get_discriminator_ignores_num_downsampling [of 64 7 "Some ''disc_X''" 3]
  by (simp add: discriminator_disc_X Input_def spec_discriminator_def)

section \<open>The EfficientNet generator\<close>

lemma py_index_neg36:
  "py_index xs (- 36) = Inr x \<longleftrightarrow> 36 \<le> length xs \<and> x = xs ! (length xs - 36)"
  by (auto simp: py_index_def nat_diff_distrib')

lemma pool_2_1_shape [simp]:
  "compute_output_shape (MaxPooling2D (2, 2) (1, 1) Valid) (h, w, c) =
     (if h < 2 \<or> w < 2 then Inl ValueError else Inr (h - 1, w - 1, c))"
  by (auto simp: Suc_diff_Suc)

lemma deconv_k_k_shape [simp]:
  "0 < filters \<Longrightarrow> 0 < k \<Longrightarrow>
   compute_output_shape (Conv2DTranspose filters (k, k) (k, k) Valid False) (h, w, c) =
     Inr (h * k, w * k, nat filters)"
  by (simp add: conv_args_ok_def)

lemma decoder_graph:
  assumes "efficientnet_generator bb = Inr m"
  shows "\<exists>b x0 h w c. bb = Inr b \<and> py_index (layer_outputs b) (- 36) = Inr x0
     \<and> kshape x0 = (h, w, c) \<and> 0 < h \<and> 0 < w
     \<and> model_inputs m = backbone_inputs b
     \<and> model_outputs m = \<lparr>kshape = (32 * h - 23, 32 * w - 23, 3),
          knode = apply_layers spec_decoder (knode x0)\<rparr>"
proof -
  from assms obtain b x0
    where b: "bb = Inr b" and x0: "py_index (layer_outputs b) (- 36) = Inr x0"
    by (auto simp: efficientnet_generator_def bindE_eq_Inr)
  obtain h w c where s: "kshape x0 = (h, w, c)"
    by (cases "kshape x0") auto
  from assms b x0 s have "0 < h \<and> 0 < w \<and> model_inputs m = backbone_inputs b
     \<and> model_outputs m = \<lparr>kshape = (32 * h - 23, 32 * w - 23, 3),
          knode = apply_layers spec_decoder (knode x0)\<rparr>"
    by (auto simp: efficientnet_generator_def call_def spec_decoder_def spec_decoder_stage_def
        split: if_splits)
  with b x0 s show ?thesis by blast
qed

lemma decoder_builds:
  assumes "py_index (layer_outputs b) (- 36) = Inr x0" and "kshape x0 = (h, w, c)"
    and "0 < h" and "0 < w"
  shows "efficientnet_generator (Inr b) =
     Inr \<lparr>model_inputs = backbone_inputs b,
          model_outputs = \<lparr>kshape = (32 * h - 23, 32 * w - 23, 3),
            knode = apply_layers spec_decoder (knode x0)\<rparr>,
          model_name = None\<rparr>"
  using assms
  by (auto simp: efficientnet_generator_def call_def spec_decoder_def spec_decoder_stage_def
      conv_args_ok_def)

text \<open>
  C5. The model of \<open>efficientnet_generator\<close> outputs a 256x256x3 tensor. The code does
  not: each max-pool of window 2 and stride 1 drops one row and one column, so a
  truncation point of size \<open>h x w\<close> gives \<open>(32 h - 23) x (32 w - 23) x 3\<close>, which is
  256x256x3 for no backbone at all, and 233x233x3 for the 8x8 feature map the backbone
  has at the truncation point.
\<close>

theorem efficientnet_generator_output_shape:
  "built_output_shape (efficientnet_generator bb) \<noteq> Some (256, 256, 3)
   \<and> (py_index (layer_outputs b) (- 36) = Inr x0 \<and> kshape x0 = (8, 8, c) \<longrightarrow>
        built_output_shape (efficientnet_generator (Inr b)) = Some (233, 233, 3))"
proof (intro conjI impI)
  show "built_output_shape (efficientnet_generator bb) \<noteq> Some (256, 256, 3)"
  proof (cases "efficientnet_generator bb")
    case (Inl e)
    then show ?thesis by (simp add: built_output_shape_def)
  next
    case (Inr m)
    from decoder_graph [OF this] obtain h :: nat
      where "fst (kshape (model_outputs m)) = 32 * h - 23" by auto
    moreover have "32 * h - 23 \<noteq> (256::nat)" by presburger
    ultimately show ?thesis using Inr by (auto simp: built_output_shape_def)
  qed
next
  assume "py_index (layer_outputs b) (- 36) = Inr x0 \<and> kshape x0 = (8, 8, c)"
  then show "built_output_shape (efficientnet_generator (Inr b)) = Some (233, 233, 3)"
    using decoder_builds [of b x0 8 8 c] by (simp add: built_output_shape_def)
qed

theorem efficientnet_generator_output_shape_witness:
  "built_output_shape (efficientnet_generator (Inr
      \<lparr>backbone_inputs = Input (256, 256, 3) None,
       layer_outputs = replicate 36 \<lparr>kshape = (8, 8, 1392), knode = Pretrained ''block6''\<rparr>\<rparr>))
     = Some (233, 233, 3)"
  using efficientnet_generator_output_shape
    [of "Inr \<lparr>backbone_inputs = Input (256, 256, 3) None,
       layer_outputs = replicate 36 \<lparr>kshape = (8, 8, 1392), knode = Pretrained ''block6''\<rparr>\<rparr>"
        "\<lparr>backbone_inputs = Input (256, 256, 3) None,
       layer_outputs = replicate 36 \<lparr>kshape = (8, 8, 1392), knode = Pretrained ''block6''\<rparr>\<rparr>"
        "\<lparr>kshape = (8, 8, 1392), knode = Pretrained ''block6''\<rparr>" 1392]
  by (simp add: py_index_neg36)

text \<open>
  C8. A model built by \<open>efficientnet_generator\<close> takes the output of the backbone layer
  36 places from the end (an internal layer: 35 layers follow it) and puts exactly the
  four stages of transposed convolution, max-pool and instance norm on it, with filter
  counts 640, 160, 40 and 3; its last layer is an instance norm and no layer of the
  decoder is an activation, so the output is not bounded by a tanh.
\<close>

theorem efficientnet_generator_structure:
  assumes "efficientnet_generator bb = Inr m"
  shows "\<exists>b. bb = Inr b \<and> 36 \<le> length (layer_outputs b)
     \<and> length (layer_outputs b) - 36 < length (layer_outputs b) - 1
     \<and> knode (model_outputs m)
         = apply_layers
             (spec_decoder_stage 640 (2, 2) @ spec_decoder_stage 160 (4, 4)
                @ spec_decoder_stage 40 (2, 2) @ spec_decoder_stage 3 (2, 2))
             (knode (layer_outputs b ! (length (layer_outputs b) - 36)))
     \<and> transposed_conv_filters spec_decoder = [640, 160, 40, 3]
     \<and> snd (snd (kshape (model_outputs m))) = 3
     \<and> (\<forall>l \<in> set spec_decoder. \<not> is_activation_layer l)
     \<and> (\<exists>n. knode (model_outputs m) = Apply InstanceNormalization n)"
proof -
  from decoder_graph [OF assms] obtain b x0 h w c
    where b: "bb = Inr b" and x0: "py_index (layer_outputs b) (- 36) = Inr x0"
      and out: "model_outputs m = \<lparr>kshape = (32 * h - 23, 32 * w - 23, 3),
          knode = apply_layers spec_decoder (knode x0)\<rparr>"
    by blast
  from x0 have len: "36 \<le> length (layer_outputs b)"
    and x0_eq: "x0 = layer_outputs b ! (length (layer_outputs b) - 36)"
    by (simp_all add: py_index_neg36)
  have "transposed_conv_filters spec_decoder = [640, 160, 40, 3]"
    and "\<forall>l \<in> set spec_decoder. \<not> is_activation_layer l"
    by (simp_all add: spec_decoder_def spec_decoder_stage_def)
  moreover have "\<exists>n. knode (model_outputs m) = Apply InstanceNormalization n"
    by (simp add: out spec_decoder_def spec_decoder_stage_def)
  moreover have "length (layer_outputs b) - 36 < length (layer_outputs b) - 1"
    using len by simp
  ultimately show ?thesis
    using b len x0_eq out by (simp add: spec_decoder_def)
qed

theorem efficientnet_generator_structure_witness:
  "\<exists>m. efficientnet_generator (Inr
      \<lparr>backbone_inputs = Input (256, 256, 3) None,
       layer_outputs = replicate 40 \<lparr>kshape = (8, 8, 1392), knode = Pretrained ''block6''\<rparr>\<rparr>)
     = Inr m
     \<and> knode (model_outputs m)
         = apply_layers
             (spec_decoder_stage 640 (2, 2) @ spec_decoder_stage 160 (4, 4)
                @ spec_decoder_stage 40 (2, 2) @ spec_decoder_stage 3 (2, 2))
             (Pretrained ''block6'')
     \<and> snd (snd (kshape (model_outputs m))) = 3"
proof -
  let ?x = "\<lparr>kshape = (8, 8, 1392), knode = Pretrained ''block6''\<rparr>"
  let ?b = "\<lparr>backbone_inputs = Input (256, 256, 3) None, layer_outputs = replicate 40 ?x\<rparr>"
  have "py_index (layer_outputs ?b) (- 36) = Inr ?x"
    by (simp add: py_index_neg36)
  from decoder_builds [OF this, of 8 8 1392]
  obtain m where m: "efficientnet_generator (Inr ?b) = Inr m" by simp
  from efficientnet_generator_structure [OF m] m show ?thesis by simp
qed

end
